theory Spec2Isabelle
  imports Complex_Main "HOL-Library.Sublist"
begin

section \<open>Shared data shapes (types.ts)\<close>

text \<open>
  JavaScript numbers are modelled by the HOL type that covers the data model of the
  module: counts and loads are \<open>int\<close>, scores and ratios are \<open>real\<close> (exact
  arithmetic, no rounding). Where a computation on ordinary finite inputs can itself
  produce \<open>NaN\<close> or an infinity (the Shannon index below) the type \<open>number\<close> with
  these values is used instead. Strings are \<open>string\<close>; the empty string is \<open>[]\<close>.

  The source computes in IEEE 754 doubles. A result that no double holds exactly (3/10,
  or 23/40 times 100) is there the nearest double and here the exact value, and a
  comparison or a rounding taken at such a value can fall on the other side. The examples
  evaluated below use values that doubles hold exactly; the general statements about
  ratios and balance are statements about the exact values.
\<close>

type_synonym MbtiPercentages = "string \<rightharpoonup> real"

record SajuResult =
  fiveElements :: "(string \<rightharpoonup> real) option"
  dayMaster :: "string option"

record NameResult =
  totalScore :: "real option"

record StudentAnalysisData =
  mbti :: "MbtiPercentages option"
  saju :: "SajuResult option"
  name :: "NameResult option"

record TeacherAnalysisData = StudentAnalysisData +
  currentLoad :: int

record CompatibilityBreakdown =
  breakdown_mbti :: real
  breakdown_learningStyle :: real
  breakdown_saju :: real
  breakdown_name :: real
  breakdown_loadBalance :: real

record CompatibilityScore =
  overall :: real
  breakdown :: CompatibilityBreakdown
  reasons :: "string list"

record DetailedAssignment =
  studentId :: string
  teacherId :: string
  score :: CompatibilityScore

record AutoAssignmentOptions =
  maxStudentsPerTeacher :: "int option"
  minCompatibilityThreshold :: "real option"

section \<open>The assignment engine (auto-assignment.ts)\<close>

record TeacherCandidate =
  teacher_id :: string
  teacher_currentLoad :: int
  teacher_analysisData :: TeacherAnalysisData

record StudentCandidate =
  student_id :: string
  student_analysisData :: StudentAnalysisData

type_synonym CompatibilityScoreFn =
  "TeacherAnalysisData \<Rightarrow> StudentAnalysisData \<Rightarrow> real \<Rightarrow> CompatibilityScore"

text \<open>
  \<open>teacherLoads\<close> is a \<open>Map<string, number>\<close>: a partial map. The source reads it with
  \<open>teacherLoads.get(id)!\<close>; a read of a missing key is the result \<open>None\<close> of the whole
  run, so that the theorems below show that it never happens.
\<close>

type_synonym TeacherLoads = "string \<rightharpoonup> int"

text \<open>\<open>for (const teacher of teachers) teacherLoads.set(teacher.id, teacher.currentLoad)\<close>\<close>

fun seedLoads :: "TeacherCandidate list \<Rightarrow> TeacherLoads \<Rightarrow> TeacherLoads" where
  "seedLoads [] teacherLoads = teacherLoads"
| "seedLoads (teacher # rest) teacherLoads =
     seedLoads rest (teacherLoads(teacher_id teacher \<mapsto> teacher_currentLoad teacher))"

text \<open>
  \<open>options.minCompatibilityThreshold && score.overall < options.minCompatibilityThreshold\<close>:
  the left operand is falsy when the option is absent and when it is \<open>0\<close>.
\<close>

definition belowThreshold :: "AutoAssignmentOptions \<Rightarrow> CompatibilityScore \<Rightarrow> bool" where
  "belowThreshold options sc =
     (case minCompatibilityThreshold options of
        None \<Rightarrow> False
      | Some thr \<Rightarrow> thr \<noteq> 0 \<and> overall sc < thr)"

text \<open>\<open>!bestScore || score.overall > bestScore.overall\<close>\<close>

definition improves :: "CompatibilityScore \<Rightarrow> (string \<times> CompatibilityScore) option \<Rightarrow> bool" where
  "improves sc best =
     (case best of None \<Rightarrow> True | Some (bestTeacherId, bestScore) \<Rightarrow> overall sc > overall bestScore)"

text \<open>
  The inner loop over the teachers for one student. \<open>best\<close> holds \<open>bestTeacherId\<close> and
  \<open>bestScore\<close>, which the source sets together (both \<open>null\<close>, or both set).
\<close>

fun scanTeachers ::
  "AutoAssignmentOptions \<Rightarrow> real \<Rightarrow> int \<Rightarrow> CompatibilityScoreFn \<Rightarrow> TeacherLoads \<Rightarrow>
   StudentCandidate \<Rightarrow> TeacherCandidate list \<Rightarrow> (string \<times> CompatibilityScore) option \<Rightarrow>
   (string \<times> CompatibilityScore) option option" where
  "scanTeachers options averageLoad maxLoad scoreFn teacherLoads student [] best = Some best"
| "scanTeachers options averageLoad maxLoad scoreFn teacherLoads student (teacher # rest) best =
     (case teacherLoads (teacher_id teacher) of
        None \<Rightarrow> None
      | Some cur \<Rightarrow>
          if cur \<ge> maxLoad
          then scanTeachers options averageLoad maxLoad scoreFn teacherLoads student rest best
          else
            let sc = scoreFn ((teacher_analysisData teacher)\<lparr>currentLoad := cur\<rparr>)
                       (student_analysisData student) averageLoad
            in if belowThreshold options sc
               then scanTeachers options averageLoad maxLoad scoreFn teacherLoads student rest best
               else if improves sc best
               then scanTeachers options averageLoad maxLoad scoreFn teacherLoads student rest
                      (Some (teacher_id teacher, sc))
               else scanTeachers options averageLoad maxLoad scoreFn teacherLoads student rest best)"

text \<open>
  The outer loop over the students. \<open>if (bestTeacherId && bestScore)\<close> is a truthiness
  test: it fails for \<open>null\<close> and also for the empty string. The function returns the
  assignments pushed so far together with the load table, which the source keeps local.
\<close>

fun assignStudents ::
  "AutoAssignmentOptions \<Rightarrow> real \<Rightarrow> int \<Rightarrow> CompatibilityScoreFn \<Rightarrow> TeacherCandidate list \<Rightarrow>
   TeacherLoads \<Rightarrow> StudentCandidate list \<Rightarrow> DetailedAssignment list \<Rightarrow>
   (DetailedAssignment list \<times> TeacherLoads) option" where
  "assignStudents options averageLoad maxLoad scoreFn teachers teacherLoads [] assignments =
     Some (assignments, teacherLoads)"
| "assignStudents options averageLoad maxLoad scoreFn teachers teacherLoads (student # rest) assignments =
     (case scanTeachers options averageLoad maxLoad scoreFn teacherLoads student teachers None of
        None \<Rightarrow> None
      | Some None \<Rightarrow>
          assignStudents options averageLoad maxLoad scoreFn teachers teacherLoads rest assignments
      | Some (Some (bestTeacherId, bestScore)) \<Rightarrow>
          if bestTeacherId \<noteq> []
          then (case teacherLoads bestTeacherId of
                  None \<Rightarrow> None
                | Some load \<Rightarrow>
                    assignStudents options averageLoad maxLoad scoreFn teachers
                      (teacherLoads(bestTeacherId \<mapsto> load + 1)) rest
                      (assignments @
                        [\<lparr>studentId = student_id student, teacherId = bestTeacherId,
                          score = bestScore\<rparr>]))
          else assignStudents options averageLoad maxLoad scoreFn teachers teacherLoads rest
                 assignments)"

text \<open>\<open>options.maxStudentsPerTeacher ?? Math.ceil(averageLoad * 1.2)\<close>\<close>

definition effectiveMaxLoad :: "AutoAssignmentOptions \<Rightarrow> real \<Rightarrow> int" where
  "effectiveMaxLoad options averageLoad =
     (case maxStudentsPerTeacher options of
        Some m \<Rightarrow> m
      | None \<Rightarrow> \<lceil>averageLoad * (12 / 10)\<rceil>)"

text \<open>
  The whole run, with the final load table. \<open>None\<close> stands for a read of a load that is
  not in the table.
\<close>

definition autoAssignmentRun ::
  "StudentCandidate list \<Rightarrow> TeacherCandidate list \<Rightarrow> CompatibilityScoreFn \<Rightarrow>
   AutoAssignmentOptions \<Rightarrow> (DetailedAssignment list \<times> TeacherLoads) option" where
  "autoAssignmentRun students teachers scoreFn options =
     (if teachers = [] \<or> students = [] then Some ([], Map.empty)
      else
        let averageLoad = real (length students) / real (length teachers);
            maxLoad = effectiveMaxLoad options averageLoad;
            teacherLoads = seedLoads teachers Map.empty
        in assignStudents options averageLoad maxLoad scoreFn teachers teacherLoads students [])"

definition generateAutoAssignment ::
  "StudentCandidate list \<Rightarrow> TeacherCandidate list \<Rightarrow> CompatibilityScoreFn \<Rightarrow>
   AutoAssignmentOptions \<Rightarrow> DetailedAssignment list option" where
  "generateAutoAssignment students teachers scoreFn options =
     map_option fst (autoAssignmentRun students teachers scoreFn options)"

section \<open>The fairness auditor (fairness-metrics.ts)\<close>

record Assignment =
  assignment_studentId :: string
  assignment_teacherId :: string
  assignment_score :: real

text \<open>
  The four advisory messages are fixed Korean sentences; each is represented by a
  constructor: review the weights (group disparity), review the algorithm (skewed
  scores), raise the load-balancing weight (unbalanced loads), all within normal range.
\<close>

datatype FairnessAdvice =
  ReviewWeights | ReviewAlgorithm | RaiseLoadBalanceWeight | WithinNormalRange

record FairnessMetrics =
  disparityIndex :: real
  abroca :: real
  distributionBalance :: real
  fairness_recommendations :: "FairnessAdvice list"

text \<open>
  A \<open>Map\<close> whose entries are read back in insertion order is an association list; a
  \<open>set\<close> on a key that is present keeps its place.
  \<open>groupScores.get(group) ?? []\<close>, \<open>scores.push(score)\<close>, \<open>groupScores.set(group, scores)\<close>:
\<close>

fun pushScore :: "string \<Rightarrow> real \<Rightarrow> (string \<times> real list) list \<Rightarrow> (string \<times> real list) list" where
  "pushScore g x [] = [(g, [] @ [x])]"
| "pushScore g x ((k, scores) # entries) =
     (if k = g then (k, scores @ [x]) # entries else (k, scores) # pushScore g x entries)"

text \<open>\<open>if (!group) continue\<close> skips a student without a group and one whose group is the empty string.\<close>

definition groupScoresOf :: "Assignment list \<Rightarrow> (string \<rightharpoonup> string) \<Rightarrow> (string \<times> real list) list" where
  "groupScoresOf assignments studentGroupMap =
     foldl (\<lambda>groupScores assignment.
              case studentGroupMap (assignment_studentId assignment) of
                None \<Rightarrow> groupScores
              | Some g \<Rightarrow>
                  if g = [] then groupScores
                  else pushScore g (assignment_score assignment) groupScores)
       [] assignments"

definition calculateDisparityIndex :: "Assignment list \<Rightarrow> (string \<rightharpoonup> string) \<Rightarrow> real" where
  "calculateDisparityIndex assignments studentGroupMap =
     (if assignments = [] then 0
      else
        let groupAverages =
              map (\<lambda>(g, scores). foldl (\<lambda>sum s. sum + s) 0 scores / real (length scores))
                (filter (\<lambda>(g, scores). length scores > 0)
                   (groupScoresOf assignments studentGroupMap))
        in case groupAverages of
             a # b # others \<Rightarrow>
               let maxScore = foldl max a (b # others);
                   minScore = foldl min a (b # others)
               in min 1 (max 0 ((maxScore - minScore) / 100))
           | _ \<Rightarrow> 0)"

text \<open>
  \<open>histogram[binIndex]++\<close>: \<open>binIndex\<close> is at most 9; for a negative score it is
  negative, the write then makes a property that is no element of the array, and the loop
  \<open>for (const count of histogram)\<close> does not see it.
\<close>

definition calculateABROCA :: "Assignment list \<Rightarrow> real" where
  "calculateABROCA assignments =
     (if assignments = [] then 0
      else
        let scores = map assignment_score assignments;
            bins = (10::nat);
            binSize = 100 / real bins;
            histogram =
              foldl (\<lambda>h score.
                       let binIndex = min \<lfloor>score / binSize\<rfloor> (int bins - 1)
                       in if binIndex < 0 then h
                          else h[nat binIndex := h ! nat binIndex + 1])
                (replicate bins (0::nat)) scores;
            idealCount = real (length scores) / real bins;
            l1Distance = foldl (\<lambda>d count. d + \<bar>real count - idealCount\<bar>) 0 histogram;
            maxL1Distance = 2 * real (length scores)
        in min 1 (max 0 (l1Distance / maxL1Distance)))"

text \<open>\<open>teacherCounts.set(id, (teacherCounts.get(id) || 0) + 1)\<close>\<close>

fun countTeacher :: "string \<Rightarrow> (string \<times> nat) list \<Rightarrow> (string \<times> nat) list" where
  "countTeacher t [] = [(t, 0 + 1)]"
| "countTeacher t ((k, c) # entries) =
     (if k = t then (k, c + 1) # entries else (k, c) # countTeacher t entries)"

definition tallyTeachers :: "Assignment list \<Rightarrow> (string \<times> nat) list" where
  "tallyTeachers assignments =
     foldl (\<lambda>teacherCounts assignment. countTeacher (assignment_teacherId assignment) teacherCounts)
       [] assignments"

definition calculateDistributionBalance :: "Assignment list \<Rightarrow> real" where
  "calculateDistributionBalance assignments =
     (if assignments = [] then 1
      else
        let counts = map (\<lambda>(k, c). real c) (tallyTeachers assignments)
        in if counts = [] then 1
           else
             let mean = foldl (\<lambda>sum c. sum + c) 0 counts / real (length counts)
             in if mean = 0 then 1
                else
                  let variance =
                        foldl (\<lambda>sum c. sum + (c - mean)\<^sup>2) 0 counts / real (length counts);
                      stdDev = sqrt variance
                  in min 1 (max 0 (1 - stdDev / mean)))"

definition generateFairnessRecommendations :: "real \<Rightarrow> real \<Rightarrow> real \<Rightarrow> FairnessAdvice list" where
  "generateFairnessRecommendations disparity skew balance =
     (let recommendations =
            (if disparity > 2 / 10 then [ReviewWeights] else []) @
            (if skew > 3 / 10 then [ReviewAlgorithm] else []) @
            (if balance < 7 / 10 then [RaiseLoadBalanceWeight] else [])
      in if recommendations = [] then [WithinNormalRange] else recommendations)"

definition calculateFairnessMetrics ::
  "Assignment list \<Rightarrow> (string \<rightharpoonup> string) option \<Rightarrow> FairnessMetrics" where
  "calculateFairnessMetrics assignments studentGroupMap =
     (let d = (case studentGroupMap of
                 Some m \<Rightarrow> calculateDisparityIndex assignments m
               | None \<Rightarrow> 0);
          a = calculateABROCA assignments;
          b = calculateDistributionBalance assignments
      in \<lparr>disparityIndex = d, abroca = a, distributionBalance = b,
          fairness_recommendations = generateFairnessRecommendations d a b\<rparr>)"

text \<open>The count an association list holds for a key, \<open>0\<close> for a key it lacks.\<close>

definition countIn :: "(string \<times> nat) list \<Rightarrow> string \<Rightarrow> nat" where
  "countIn m t = (case map_of m t of None \<Rightarrow> 0 | Some c \<Rightarrow> c)"

section \<open>JavaScript numbers with NaN and the infinities\<close>

text \<open>
  The Shannon index divides by a logarithm that can be zero, so its arithmetic is
  modelled on values that include \<open>NaN\<close>, \<open>Infinity\<close> and \<open>-Infinity\<close>. Arithmetic on
  finite values is exact (no rounding, no overflow). Zero carries no sign: as a divisor it
  counts as \<open>+0\<close>, which is what \<open>Math.log(1)\<close>, the only zero divisor of the module,
  returns.
\<close>

datatype number = Finite real | PosInfinity | NegInfinity | NaN

fun num_neg :: "number \<Rightarrow> number" where
  "num_neg (Finite x) = Finite (- x)"
| "num_neg PosInfinity = NegInfinity"
| "num_neg NegInfinity = PosInfinity"
| "num_neg NaN = NaN"

fun num_add :: "number \<Rightarrow> number \<Rightarrow> number" where
  "num_add (Finite x) (Finite y) = Finite (x + y)"
| "num_add NaN y = NaN"
| "num_add x NaN = NaN"
| "num_add PosInfinity NegInfinity = NaN"
| "num_add NegInfinity PosInfinity = NaN"
| "num_add PosInfinity y = PosInfinity"
| "num_add x PosInfinity = PosInfinity"
| "num_add NegInfinity y = NegInfinity"
| "num_add x NegInfinity = NegInfinity"

fun num_mul :: "number \<Rightarrow> number \<Rightarrow> number" where
  "num_mul (Finite x) (Finite y) = Finite (x * y)"
| "num_mul NaN y = NaN"
| "num_mul x NaN = NaN"
| "num_mul (Finite x) PosInfinity =
     (if x = 0 then NaN else if x > 0 then PosInfinity else NegInfinity)"
| "num_mul (Finite x) NegInfinity =
     (if x = 0 then NaN else if x > 0 then NegInfinity else PosInfinity)"
| "num_mul PosInfinity (Finite y) =
     (if y = 0 then NaN else if y > 0 then PosInfinity else NegInfinity)"
| "num_mul NegInfinity (Finite y) =
     (if y = 0 then NaN else if y > 0 then NegInfinity else PosInfinity)"
| "num_mul PosInfinity PosInfinity = PosInfinity"
| "num_mul NegInfinity NegInfinity = PosInfinity"
| "num_mul PosInfinity NegInfinity = NegInfinity"
| "num_mul NegInfinity PosInfinity = NegInfinity"

fun num_div :: "number \<Rightarrow> number \<Rightarrow> number" where
  "num_div (Finite x) (Finite y) =
     (if y \<noteq> 0 then Finite (x / y)
      else if x > 0 then PosInfinity else if x < 0 then NegInfinity else NaN)"
| "num_div NaN y = NaN"
| "num_div x NaN = NaN"
| "num_div (Finite x) PosInfinity = Finite 0"
| "num_div (Finite x) NegInfinity = Finite 0"
| "num_div PosInfinity (Finite y) = (if y \<ge> 0 then PosInfinity else NegInfinity)"
| "num_div NegInfinity (Finite y) = (if y \<ge> 0 then NegInfinity else PosInfinity)"
| "num_div PosInfinity PosInfinity = NaN"
| "num_div PosInfinity NegInfinity = NaN"
| "num_div NegInfinity PosInfinity = NaN"
| "num_div NegInfinity NegInfinity = NaN"

text \<open>\<open>Math.log\<close>\<close>

fun num_log :: "number \<Rightarrow> number" where
  "num_log (Finite x) = (if x > 0 then Finite (ln x) else if x = 0 then NegInfinity else NaN)"
| "num_log PosInfinity = PosInfinity"
| "num_log NegInfinity = NaN"
| "num_log NaN = NaN"

text \<open>\<open>Math.max\<close> and \<open>Math.min\<close> of two arguments: \<open>NaN\<close> if either is.\<close>

fun num_max :: "number \<Rightarrow> number \<Rightarrow> number" where
  "num_max (Finite x) (Finite y) = Finite (max x y)"
| "num_max NaN y = NaN"
| "num_max x NaN = NaN"
| "num_max PosInfinity y = PosInfinity"
| "num_max x PosInfinity = PosInfinity"
| "num_max NegInfinity y = y"
| "num_max x NegInfinity = x"

fun num_min :: "number \<Rightarrow> number \<Rightarrow> number" where
  "num_min (Finite x) (Finite y) = Finite (min x y)"
| "num_min NaN y = NaN"
| "num_min x NaN = NaN"
| "num_min NegInfinity y = NegInfinity"
| "num_min x NegInfinity = NegInfinity"
| "num_min PosInfinity y = y"
| "num_min x PosInfinity = x"

text \<open>\<open>Math.round\<close>: the nearest integer, halves going up.\<close>

fun num_round :: "number \<Rightarrow> number" where
  "num_round (Finite x) = Finite (of_int \<lfloor>x + 1 / 2\<rfloor>)"
| "num_round x = x"

text \<open>\<open><\<close> and \<open>>=\<close>: false when an operand is \<open>NaN\<close>.\<close>

fun num_less :: "number \<Rightarrow> number \<Rightarrow> bool" where
  "num_less (Finite x) (Finite y) = (x < y)"
| "num_less NaN y = False"
| "num_less x NaN = False"
| "num_less x NegInfinity = False"
| "num_less PosInfinity y = False"
| "num_less NegInfinity y = True"
| "num_less x PosInfinity = True"

fun num_ge :: "number \<Rightarrow> number \<Rightarrow> bool" where
  "num_ge (Finite x) (Finite y) = (x \<ge> y)"
| "num_ge NaN y = False"
| "num_ge x NaN = False"
| "num_ge PosInfinity y = True"
| "num_ge x NegInfinity = True"
| "num_ge NegInfinity y = False"
| "num_ge x PosInfinity = False"

section \<open>The composition analyzer (team-composition.ts)\<close>

subsection \<open>Strings of the module\<close>

text \<open>
  The Korean constants of the source are written as their UTF-8 bytes. The two syllables
  that start a grade label (middle school, U+C911; high school, U+ACE0):
\<close>

definition middlePrefix :: string where
  "middlePrefix = [CHR 0xEC, CHR 0xA4, CHR 0x91]"

definition highPrefix :: string where
  "highPrefix = [CHR 0xEA, CHR 0xB3, CHR 0xA0]"

text \<open>
  \<open>SUBJECTS\<close>: mathematics (U+C218 U+D559), English (U+C601 U+C5B4), Korean
  (U+AD6D U+C5B4), science (U+ACFC U+D559), social studies (U+C0AC U+D68C).
\<close>

definition SUBJECTS :: "string list" where
  "SUBJECTS =
     [[CHR 0xEC, CHR 0x88, CHR 0x98, CHR 0xED, CHR 0x95, CHR 0x99],
      [CHR 0xEC, CHR 0x98, CHR 0x81, CHR 0xEC, CHR 0x96, CHR 0xB4],
      [CHR 0xEA, CHR 0xB5, CHR 0xAD, CHR 0xEC, CHR 0x96, CHR 0xB4],
      [CHR 0xEA, CHR 0xB3, CHR 0xBC, CHR 0xED, CHR 0x95, CHR 0x99],
      [CHR 0xEC, CHR 0x82, CHR 0xAC, CHR 0xED, CHR 0x9A, CHR 0x8C]]"

definition GRADES :: "string list" where
  "GRADES =
     [middlePrefix @ ''1'', middlePrefix @ ''2'', middlePrefix @ ''3'',
      highPrefix @ ''1'', highPrefix @ ''2'', highPrefix @ ''3'']"

text \<open>
  The names of the five elements: wood (U+BAA9), fire (U+D654), earth (U+D1A0), metal
  (U+AE08), water (U+C218).
\<close>

definition woodName :: string where "woodName = [CHR 0xEB, CHR 0xAA, CHR 0xA9]"
definition fireName :: string where "fireName = [CHR 0xED, CHR 0x99, CHR 0x94]"
definition earthName :: string where "earthName = [CHR 0xED, CHR 0x86, CHR 0xA0]"
definition metalName :: string where "metalName = [CHR 0xEA, CHR 0xB8, CHR 0x88]"
definition waterName :: string where "waterName = [CHR 0xEC, CHR 0x88, CHR 0x98]"

text \<open>A template literal prints an integer in decimal.\<close>

fun digitsOf :: "nat \<Rightarrow> string" where
  "digitsOf n =
     (if n < 10 then [''0123456789'' ! n]
      else digitsOf (n div 10) @ [''0123456789'' ! (n mod 10)])"

definition numberToString :: "int \<Rightarrow> string" where
  "numberToString i = (if i < 0 then CHR ''-'' # digitsOf (nat (- i)) else digitsOf (nat i))"

text \<open>
  \<open>toUpperCase\<close>, on the UTF-8 bytes of the string. The letters a-z become A-Z. A
  character outside ASCII whose upper-case form holds an ASCII letter is replaced by that
  form: U+00DF by SS, U+0131 by I, U+0149 by U+02BC N, U+017F by S, U+01F0 by J U+030C,
  U+1E96 to U+1E9A by H, T, W, Y, A with their marks, and the ligatures U+FB00 to U+FB06
  by FF, FI, FL, FFI, FFL, ST, ST. Every other character outside ASCII is left as it is:
  its upper-case form holds no ASCII letter, and the module asks the result only for the
  letters E, I, S, N, T, F, J and P.
\<close>

definition toUpperChar :: "char \<Rightarrow> char" where
  "toUpperChar c =
     (case map_of (zip ''abcdefghijklmnopqrstuvwxyz'' ''ABCDEFGHIJKLMNOPQRSTUVWXYZ'') c of
        Some u \<Rightarrow> u
      | None \<Rightarrow> c)"

definition upperOfTwoBytes :: "(string \<times> string) list" where
  "upperOfTwoBytes =
     [([CHR 0xC3, CHR 0x9F], ''SS''),
      ([CHR 0xC4, CHR 0xB1], ''I''),
      ([CHR 0xC5, CHR 0x89], [CHR 0xCA, CHR 0xBC, CHR ''N'']),
      ([CHR 0xC5, CHR 0xBF], ''S''),
      ([CHR 0xC7, CHR 0xB0], [CHR ''J'', CHR 0xCC, CHR 0x8C])]"

definition upperOfThreeBytes :: "(string \<times> string) list" where
  "upperOfThreeBytes =
     [([CHR 0xE1, CHR 0xBA, CHR 0x96], [CHR ''H'', CHR 0xCC, CHR 0xB1]),
      ([CHR 0xE1, CHR 0xBA, CHR 0x97], [CHR ''T'', CHR 0xCC, CHR 0x88]),
      ([CHR 0xE1, CHR 0xBA, CHR 0x98], [CHR ''W'', CHR 0xCC, CHR 0x8A]),
      ([CHR 0xE1, CHR 0xBA, CHR 0x99], [CHR ''Y'', CHR 0xCC, CHR 0x8A]),
      ([CHR 0xE1, CHR 0xBA, CHR 0x9A], [CHR ''A'', CHR 0xCA, CHR 0xBE]),
      ([CHR 0xEF, CHR 0xAC, CHR 0x80], ''FF''),
      ([CHR 0xEF, CHR 0xAC, CHR 0x81], ''FI''),
      ([CHR 0xEF, CHR 0xAC, CHR 0x82], ''FL''),
      ([CHR 0xEF, CHR 0xAC, CHR 0x83], ''FFI''),
      ([CHR 0xEF, CHR 0xAC, CHR 0x84], ''FFL''),
      ([CHR 0xEF, CHR 0xAC, CHR 0x85], ''ST''),
      ([CHR 0xEF, CHR 0xAC, CHR 0x86], ''ST'')]"

fun toUpperCase :: "string \<Rightarrow> string" where
  "toUpperCase [] = []"
| "toUpperCase [a] = [toUpperChar a]"
| "toUpperCase [a, b] =
     (case map_of upperOfTwoBytes [a, b] of
        Some u \<Rightarrow> u
      | None \<Rightarrow> toUpperChar a # toUpperCase [b])"
| "toUpperCase (a # b # c # s) =
     (case map_of upperOfThreeBytes [a, b, c] of
        Some u \<Rightarrow> u @ toUpperCase s
      | None \<Rightarrow>
          (case map_of upperOfTwoBytes [a, b] of
             Some u \<Rightarrow> u @ toUpperCase (c # s)
           | None \<Rightarrow> toUpperChar a # toUpperCase (b # c # s)))"

declare toUpperCase.simps [simp del]

text \<open>\<open>type.includes("E")\<close> for a one-letter argument.\<close>

definition includesChar :: "string \<Rightarrow> char \<Rightarrow> bool" where
  "includesChar s c = (c \<in> set s)"

subsection \<open>Inputs and results (types.ts)\<close>

text \<open>
  \<open>createdAt\<close> and the clock are times in milliseconds. A roster record may carry more
  fields than the interface names, so the functions below take any extension of the
  record. A grade is an integer.
\<close>

record TeacherTeamData =
  teamData_id :: string
  teamData_name :: string
  role :: string
  createdAt :: int
  mbtiType :: "string option"
  mbtiPercentages :: "MbtiPercentages option"
  sajuResult :: "SajuResult option"
  studentGrades :: "int list option"

record AxisRatios =
  axis_E :: real
  axis_I :: real
  axis_S :: real
  axis_N :: real
  axis_T :: real
  axis_F :: real
  axis_J :: real
  axis_P :: real

text \<open>
  A \<open>Record<string, number>\<close> read back with \<open>Object.keys\<close>, \<open>Object.values\<close> or
  \<open>Object.entries\<close> is an association list in insertion order (the keys of the module
  are no array indices and no members of \<open>Object.prototype\<close>).
\<close>

record MBTIDistribution =
  typeCounts :: "(string \<times> nat) list"
  mostCommon :: "string list"
  rarest :: "string list"
  axisRatios :: AxisRatios

record LearningStyleDistribution =
  visual :: int
  auditory :: int
  reading :: int
  kinesthetic :: int
  learning_dominant :: string

record SajuElementsDistribution =
  wood :: int
  fire :: int
  earth :: int
  metal :: int
  water :: int
  saju_dominant :: string
  deficient :: "string list"

record ExperienceLevels =
  junior :: nat
  mid :: nat
  senior :: nat

record ExpertiseCoverage =
  subjects :: "(string \<times> nat) list"
  grades :: "(string \<times> nat) list"
  experienceLevels :: ExperienceLevels
  weakSubjects :: "string list"
  weakGrades :: "string list"

record RoleDistribution =
  TEAM_LEADER :: nat
  MANAGER :: nat
  TEACHER :: nat

record TeamComposition =
  teamId :: string
  teacherCount :: nat
  mbtiDistribution :: MBTIDistribution
  learningStyleDistribution :: LearningStyleDistribution
  sajuElementsDistribution :: SajuElementsDistribution
  expertiseCoverage :: ExpertiseCoverage
  roleDistribution :: RoleDistribution

record DiversityScore =
  diversity_overall :: number
  mbtiDiversity :: number
  learningStyleDiversity :: number
  sajuElementsDiversity :: number
  subjectDiversity :: number
  gradeDiversity :: number

datatype RecommendationType = Diversity | Coverage | Balance

datatype Priority = High | Medium | Low

text \<open>
  The title, the wording and the action items of a recommendation are fixed Korean text
  determined by its id; the model keeps the id, the type, the priority and the values
  that the description and the evidence interpolate, in the order of the templates.
\<close>

datatype Interpolated =
  NumberValue number | IntValue int | Names "string list" | Name string |
  Counts "(string \<times> nat) list"

record Recommendation =
  rec_id :: string
  rec_type :: RecommendationType
  priority :: Priority
  description_values :: "Interpolated list"
  evidence_values :: "Interpolated list"

record TeamCompositionAnalysis =
  composition :: TeamComposition
  diversityScore :: DiversityScore
  recommendations :: "Recommendation list"
  analyzedAt :: int

subsection \<open>Shannon diversity\<close>

definition calculateShannonDiversity :: "number list \<Rightarrow> number \<Rightarrow> number" where
  "calculateShannonDiversity counts totalN =
     (if totalN = Finite 0 then Finite 0
      else
        let sumP = foldl (\<lambda>acc count.
                            if count = Finite 0 then acc
                            else let p = num_div count totalN
                                 in num_add acc (num_mul p (num_log p)))
                     (Finite 0) counts;
            maxDiversity = num_log (Finite (real (length counts)));
            shannon = num_div (num_neg sumP) maxDiversity
        in num_min (num_max (num_mul shannon (Finite 100)) (Finite 0)) (Finite 100))"

subsection \<open>Records used as tallies\<close>

text \<open>\<open>counts[key] = (counts[key] || 0) + 1\<close>\<close>

fun bumpCount :: "string \<Rightarrow> (string \<times> nat) list \<Rightarrow> (string \<times> nat) list" where
  "bumpCount key [] = [(key, 0 + 1)]"
| "bumpCount key ((k, c) # entries) =
     (if k = key then (k, c + 1) # entries else (k, c) # bumpCount key entries)"

text \<open>\<open>counts[key] = v\<close>\<close>

fun setCount :: "string \<Rightarrow> nat \<Rightarrow> (string \<times> nat) list \<Rightarrow> (string \<times> nat) list" where
  "setCount key v [] = [(key, v)]"
| "setCount key v ((k, c) # entries) =
     (if k = key then (k, v) # entries else (k, c) # setCount key v entries)"

text \<open>\<open>for (const key of keys) counts[key] = counts[key] || 0\<close>\<close>

definition withDefaults :: "string list \<Rightarrow> (string \<times> nat) list \<Rightarrow> (string \<times> nat) list" where
  "withDefaults keys counts = foldl (\<lambda>m key. setCount key (countIn m key) m) counts keys"

subsection \<open>The personality-type distribution\<close>

record MbtiTally =
  tally_typeCounts :: "(string \<times> nat) list"
  tally_e :: nat
  tally_i :: nat
  tally_s :: nat
  tally_n :: nat
  tally_t :: nat
  tally_f :: nat
  tally_j :: nat
  tally_p :: nat

text \<open>
  The body of the loop. \<open>if (!mbti) continue\<close> skips a missing type and the empty
  string.
\<close>

definition tallyMbti :: "MbtiTally \<Rightarrow> 'a TeacherTeamData_scheme \<Rightarrow> MbtiTally" where
  "tallyMbti st teacher =
     (case mbtiType teacher of
        None \<Rightarrow> st
      | Some m \<Rightarrow>
          if m = [] then st
          else
            let ty = toUpperCase m
            in \<lparr>tally_typeCounts = bumpCount m (tally_typeCounts st),
                tally_e = tally_e st + (if includesChar ty CHR ''E'' then 1 else 0),
                tally_i = tally_i st + (if includesChar ty CHR ''I'' then 1 else 0),
                tally_s = tally_s st + (if includesChar ty CHR ''S'' then 1 else 0),
                tally_n = tally_n st + (if includesChar ty CHR ''N'' then 1 else 0),
                tally_t = tally_t st + (if includesChar ty CHR ''T'' then 1 else 0),
                tally_f = tally_f st + (if includesChar ty CHR ''F'' then 1 else 0),
                tally_j = tally_j st + (if includesChar ty CHR ''J'' then 1 else 0),
                tally_p = tally_p st + (if includesChar ty CHR ''P'' then 1 else 0)\<rparr>)"

definition emptyMbtiTally :: MbtiTally where
  "emptyMbtiTally =
     \<lparr>tally_typeCounts = [], tally_e = 0, tally_i = 0, tally_s = 0, tally_n = 0,
      tally_t = 0, tally_f = 0, tally_j = 0, tally_p = 0\<rparr>"

text \<open>\<open>total > 0 ? (x / total) * 100 : 0\<close>\<close>

definition ratioOf :: "nat \<Rightarrow> nat \<Rightarrow> real" where
  "ratioOf x totalN = (if totalN > 0 then real x / real totalN * 100 else 0)"

text \<open>
  \<open>sort\<close> is stable; sorting by descending count is \<open>sort_key\<close> on the negated count.
  \<open>sorted.slice(-3)\<close> is the last three entries, or all of them when there are fewer.
\<close>

definition analyzeMBTIDistribution :: "'a TeacherTeamData_scheme list \<Rightarrow> MBTIDistribution" where
  "analyzeMBTIDistribution teachers =
     (let st = foldl tallyMbti emptyMbtiTally teachers;
          types = map fst (tally_typeCounts st);
          sorted = sort_key (\<lambda>k. - int (countIn (tally_typeCounts st) k)) types;
          totalN = tally_e st + tally_i st
      in \<lparr>typeCounts = tally_typeCounts st,
          mostCommon = take 3 sorted,
          rarest = rev (drop (length sorted - 3) sorted),
          axisRatios =
            \<lparr>axis_E = ratioOf (tally_e st) totalN,
             axis_I = ratioOf (tally_i st) totalN,
             axis_S = ratioOf (tally_s st) totalN,
             axis_N = ratioOf (tally_n st) totalN,
             axis_T = ratioOf (tally_t st) totalN,
             axis_F = ratioOf (tally_f st) totalN,
             axis_J = ratioOf (tally_j st) totalN,
             axis_P = ratioOf (tally_p st) totalN\<rparr>\<rparr>)"

subsection \<open>The learning-style distribution\<close>

record LearningTally =
  sum_visual :: real
  sum_auditory :: real
  sum_reading :: real
  sum_kinesthetic :: real
  learning_count :: nat

text \<open>\<open>percentages.visual || 0\<close>\<close>

definition orZero :: "real option \<Rightarrow> real" where
  "orZero v = (case v of None \<Rightarrow> 0 | Some x \<Rightarrow> x)"

definition tallyLearning :: "LearningTally \<Rightarrow> 'a TeacherTeamData_scheme \<Rightarrow> LearningTally" where
  "tallyLearning st teacher =
     (case mbtiPercentages teacher of
        None \<Rightarrow> st
      | Some percentages \<Rightarrow>
          \<lparr>sum_visual = sum_visual st + orZero (percentages ''visual''),
           sum_auditory = sum_auditory st + orZero (percentages ''auditory''),
           sum_reading = sum_reading st + orZero (percentages ''reading''),
           sum_kinesthetic = sum_kinesthetic st + orZero (percentages ''kinesthetic''),
           learning_count = learning_count st + 1\<rparr>)"

text \<open>\<open>Math.round\<close> of a finite value.\<close>

definition roundHalfUp :: "real \<Rightarrow> int" where
  "roundHalfUp x = \<lfloor>x + 1 / 2\<rfloor>"

definition analyzeLearningStyleDistribution ::
  "'a TeacherTeamData_scheme list \<Rightarrow> LearningStyleDistribution" where
  "analyzeLearningStyleDistribution teachers =
     (let st = foldl tallyLearning
                 \<lparr>sum_visual = 0, sum_auditory = 0, sum_reading = 0, sum_kinesthetic = 0,
                  learning_count = 0\<rparr> teachers
      in if learning_count st = 0
         then \<lparr>visual = 0, auditory = 0, reading = 0, kinesthetic = 0, learning_dominant = ''-''\<rparr>
         else
           let avg = (\<lambda>val. roundHalfUp (val / real (learning_count st)));
               v = avg (sum_visual st);
               a = avg (sum_auditory st);
               r = avg (sum_reading st);
               k = avg (sum_kinesthetic st);
               styles = sort_key (\<lambda>(n, x). - x)
                          [(''Visual'', v), (''Auditory'', a), (''Reading'', r), (''Kinesthetic'', k)]
           in \<lparr>visual = v, auditory = a, reading = r, kinesthetic = k,
               learning_dominant = fst (hd styles)\<rparr>)"

subsection \<open>The five-element distribution\<close>

record SajuTally =
  sum_wood :: real
  sum_fire :: real
  sum_earth :: real
  sum_metal :: real
  sum_water :: real

text \<open>\<open>if (elements.wood) elementCounts.wood += elements.wood\<close>\<close>

definition addTruthy :: "real \<Rightarrow> real option \<Rightarrow> real" where
  "addTruthy acc v = (case v of None \<Rightarrow> acc | Some x \<Rightarrow> if x \<noteq> 0 then acc + x else acc)"

definition tallySaju :: "SajuTally \<Rightarrow> 'a TeacherTeamData_scheme \<Rightarrow> SajuTally" where
  "tallySaju st teacher =
     (case sajuResult teacher of
        None \<Rightarrow> st
      | Some result \<Rightarrow>
          (case fiveElements result of
             None \<Rightarrow> st
           | Some elements \<Rightarrow>
               \<lparr>sum_wood = addTruthy (sum_wood st) (elements ''wood''),
                sum_fire = addTruthy (sum_fire st) (elements ''fire''),
                sum_earth = addTruthy (sum_earth st) (elements ''earth''),
                sum_metal = addTruthy (sum_metal st) (elements ''metal''),
                sum_water = addTruthy (sum_water st) (elements ''water'')\<rparr>))"

definition analyzeSajuElementsDistribution ::
  "'a TeacherTeamData_scheme list \<Rightarrow> SajuElementsDistribution" where
  "analyzeSajuElementsDistribution teachers =
     (let st = foldl tallySaju
                 \<lparr>sum_wood = 0, sum_fire = 0, sum_earth = 0, sum_metal = 0, sum_water = 0\<rparr>
                 teachers;
          totalN = sum_wood st + sum_fire st + sum_earth st + sum_metal st + sum_water st
      in if totalN = 0
         then \<lparr>wood = 0, fire = 0, earth = 0, metal = 0, water = 0, saju_dominant = ''-'',
               deficient = []\<rparr>
         else
           let elements = sort_key (\<lambda>(n, x). - x)
                            [(woodName, sum_wood st), (fireName, sum_fire st),
                             (earthName, sum_earth st), (metalName, sum_metal st),
                             (waterName, sum_water st)];
               avg = totalN / 5
           in \<lparr>wood = roundHalfUp (sum_wood st / totalN * 100),
               fire = roundHalfUp (sum_fire st / totalN * 100),
               earth = roundHalfUp (sum_earth st / totalN * 100),
               metal = roundHalfUp (sum_metal st / totalN * 100),
               water = roundHalfUp (sum_water st / totalN * 100),
               saju_dominant = fst (hd elements),
               deficient = map fst (filter (\<lambda>(n, x). x < avg * (7 / 10)) elements)\<rparr>)"

subsection \<open>Expertise coverage\<close>

definition gradeToLabel :: "int \<Rightarrow> string" where
  "gradeToLabel grade =
     (if grade \<le> 3 then middlePrefix @ numberToString grade
      else highPrefix @ numberToString (grade - 3))"

record ExpertiseTally =
  tally_grades :: "(string \<times> nat) list"
  tally_junior :: nat
  tally_mid :: nat
  tally_senior :: nat

text \<open>
  The body of the loop over the teachers; \<open>now\<close> is the clock read before the loop.
  Nothing in the loop writes to \<open>subjects\<close>.
\<close>

definition tallyExpertise :: "int \<Rightarrow> ExpertiseTally \<Rightarrow> 'a TeacherTeamData_scheme \<Rightarrow> ExpertiseTally" where
  "tallyExpertise now st teacher =
     (let gradeList = (case studentGrades teacher of None \<Rightarrow> [] | Some gs \<Rightarrow> gs);
          g = foldl (\<lambda>m grade. bumpCount (gradeToLabel grade) m) (tally_grades st) gradeList;
          experienceYears = real_of_int (now - createdAt teacher) / (1000 * 60 * 60 * 24 * 365)
      in if experienceYears < 1
         then st\<lparr>tally_grades := g, tally_junior := tally_junior st + 1\<rparr>
         else if experienceYears < 3
         then st\<lparr>tally_grades := g, tally_mid := tally_mid st + 1\<rparr>
         else st\<lparr>tally_grades := g, tally_senior := tally_senior st + 1\<rparr>)"

definition analyzeExpertiseCoverage :: "int \<Rightarrow> 'a TeacherTeamData_scheme list \<Rightarrow> ExpertiseCoverage" where
  "analyzeExpertiseCoverage now teachers =
     (let st = foldl (tallyExpertise now)
                 \<lparr>tally_grades = [], tally_junior = 0, tally_mid = 0, tally_senior = 0\<rparr>
                 teachers;
          subjectCounts = withDefaults SUBJECTS [];
          gradeCounts = withDefaults GRADES (tally_grades st);
          avgSubjectCoverage =
            (if length teachers > 0 then real (length teachers) / real (length SUBJECTS) else 0);
          avgGradeCoverage =
            (if length teachers > 0 then real (length teachers) / real (length GRADES) else 0)
      in \<lparr>subjects = subjectCounts,
          grades = gradeCounts,
          experienceLevels =
            \<lparr>junior = tally_junior st, mid = tally_mid st, senior = tally_senior st\<rparr>,
          weakSubjects =
            filter (\<lambda>subject. real (countIn subjectCounts subject) < avgSubjectCoverage * (1 / 2))
              SUBJECTS,
          weakGrades =
            filter (\<lambda>grade. real (countIn gradeCounts grade) < avgGradeCoverage * (1 / 2))
              GRADES\<rparr>)"

subsection \<open>Roles\<close>

text \<open>A role other than the three names is ignored.\<close>

definition tallyRole :: "RoleDistribution \<Rightarrow> 'a TeacherTeamData_scheme \<Rightarrow> RoleDistribution" where
  "tallyRole distribution teacher =
     (if role teacher = ''TEAM_LEADER'' then distribution\<lparr>TEAM_LEADER := TEAM_LEADER distribution + 1\<rparr>
      else if role teacher = ''MANAGER'' then distribution\<lparr>MANAGER := MANAGER distribution + 1\<rparr>
      else if role teacher = ''TEACHER'' then distribution\<lparr>TEACHER := TEACHER distribution + 1\<rparr>
      else distribution)"

definition analyzeRoleDistribution :: "'a TeacherTeamData_scheme list \<Rightarrow> RoleDistribution" where
  "analyzeRoleDistribution teachers =
     foldl tallyRole \<lparr>TEAM_LEADER = 0, MANAGER = 0, TEACHER = 0\<rparr> teachers"

subsection \<open>The diversity score\<close>

definition countsAsNumbers :: "nat list \<Rightarrow> number list" where
  "countsAsNumbers cs = map (\<lambda>c. Finite (real c)) cs"

definition calculateDiversityScore :: "TeamComposition \<Rightarrow> DiversityScore" where
  "calculateDiversityScore c =
     (let mbtiCounts = countsAsNumbers (map snd (typeCounts (mbtiDistribution c)));
          mbtiDiv = calculateShannonDiversity mbtiCounts (Finite (real (teacherCount c)));
          ls = learningStyleDistribution c;
          learningStyleCounts =
            map (\<lambda>x. Finite (real_of_int x)) [visual ls, auditory ls, reading ls, kinesthetic ls];
          learningStyleDiv =
            calculateShannonDiversity learningStyleCounts (Finite (real (teacherCount c) * 100));
          se = sajuElementsDistribution c;
          sajuCounts = map (\<lambda>x. Finite (real_of_int x)) [wood se, fire se, earth se, metal se, water se];
          sajuElementsDiv = calculateShannonDiversity sajuCounts (Finite 100);
          subjectCounts = map snd (subjects (expertiseCoverage c));
          totalSubjectTeachers = foldl (\<lambda>a b. a + b) 0 subjectCounts;
          subjectDiv =
            (if totalSubjectTeachers > 0
             then calculateShannonDiversity (countsAsNumbers subjectCounts)
                    (Finite (real totalSubjectTeachers))
             else Finite 0);
          gradeCounts = map snd (grades (expertiseCoverage c));
          totalGradeTeachers = foldl (\<lambda>a b. a + b) 0 gradeCounts;
          gradeDiv =
            (if totalGradeTeachers > 0
             then calculateShannonDiversity (countsAsNumbers gradeCounts)
                    (Finite (real totalGradeTeachers))
             else Finite 0);
          mean =
            num_div
              (num_add (num_add (num_add (num_add mbtiDiv learningStyleDiv) sajuElementsDiv)
                 subjectDiv) gradeDiv)
              (Finite 5)
      in \<lparr>diversity_overall = num_round mean,
          mbtiDiversity = num_round mbtiDiv,
          learningStyleDiversity = num_round learningStyleDiv,
          sajuElementsDiversity = num_round sajuElementsDiv,
          subjectDiversity = num_round subjectDiv,
          gradeDiversity = num_round gradeDiv\<rparr>)"

subsection \<open>Recommendations\<close>

definition priorityOrder :: "Priority \<Rightarrow> nat" where
  "priorityOrder p = (case p of High \<Rightarrow> 0 | Medium \<Rightarrow> 1 | Low \<Rightarrow> 2)"

definition getTeamRecommendations :: "TeamComposition \<Rightarrow> DiversityScore \<Rightarrow> Recommendation list" where
  "getTeamRecommendations c d =
     (let ls = learningStyleDistribution c;
          se = sajuElementsDistribution c;
          ec = expertiseCoverage c;
          found =
            (if learning_dominant ls = ''Visual'' \<and> 100 - visual ls < 40
             then [\<lparr>rec_id = ''rec-1'', rec_type = Diversity, priority = High,
                    description_values = [IntValue (visual ls)],
                    evidence_values =
                      [IntValue (auditory ls), IntValue (reading ls), IntValue (kinesthetic ls)]\<rparr>]
             else []) @
            (if length (deficient se) > 0
             then [\<lparr>rec_id = ''rec-2'', rec_type = Balance, priority = Medium,
                    description_values = [Names (deficient se)],
                    evidence_values = [Name (saju_dominant se)]\<rparr>]
             else []) @
            (if length (weakSubjects ec) > 0
             then [\<lparr>rec_id = ''rec-3'', rec_type = Coverage, priority = High,
                    description_values = [Names (weakSubjects ec)],
                    evidence_values = [Counts (subjects ec)]\<rparr>]
             else []) @
            (if length (weakGrades ec) > 0
             then [\<lparr>rec_id = ''rec-4'', rec_type = Coverage, priority = Medium,
                    description_values = [Names (weakGrades ec)],
                    evidence_values = [Counts (grades ec)]\<rparr>]
             else []) @
            (if num_less (diversity_overall d) (Finite 50)
             then [\<lparr>rec_id = ''rec-5'', rec_type = Diversity, priority = Medium,
                    description_values = [NumberValue (diversity_overall d)],
                    evidence_values =
                      [NumberValue (mbtiDiversity d), NumberValue (learningStyleDiversity d),
                       NumberValue (sajuElementsDiversity d), NumberValue (subjectDiversity d),
                       NumberValue (gradeDiversity d)]\<rparr>]
             else []) @
            (if num_ge (diversity_overall d) (Finite 70)
             then [\<lparr>rec_id = ''rec-6'', rec_type = Balance, priority = Low,
                    description_values = [],
                    evidence_values = [NumberValue (diversity_overall d)]\<rparr>]
             else [])
      in sort_key (\<lambda>r. priorityOrder (priority r)) found)"

subsection \<open>The whole analysis\<close>

text \<open>
  The function reads the clock twice with \<open>new Date()\<close>: in \<open>analyzeExpertiseCoverage\<close>
  (\<open>now\<close>) and for \<open>analyzedAt\<close> when it returns (\<open>returnedAt\<close>). The two readings are
  the first two arguments.
\<close>

definition analyzeTeamComposition ::
  "int \<Rightarrow> int \<Rightarrow> string \<Rightarrow> 'a TeacherTeamData_scheme list \<Rightarrow> TeamCompositionAnalysis" where
  "analyzeTeamComposition now returnedAt team teachers =
     (let c = \<lparr>teamId = team,
               teacherCount = length teachers,
               mbtiDistribution = analyzeMBTIDistribution teachers,
               learningStyleDistribution = analyzeLearningStyleDistribution teachers,
               sajuElementsDistribution = analyzeSajuElementsDistribution teachers,
               expertiseCoverage = analyzeExpertiseCoverage now teachers,
               roleDistribution = analyzeRoleDistribution teachers\<rparr>;
          d = calculateDiversityScore c
      in \<lparr>composition = c, diversityScore = d,
          recommendations = getTeamRecommendations c d,
          analyzedAt = returnedAt\<rparr>)"

section \<open>Notions of the specification, for the fairness auditor\<close>

text \<open>The number of assignments of a teacher, and the teachers that have any.\<close>

definition assignmentsOf :: "Assignment list \<Rightarrow> string \<Rightarrow> nat" where
  "assignmentsOf assignments t = length (filter (\<lambda>a. assignment_teacherId a = t) assignments)"

definition assignedTeachers :: "Assignment list \<Rightarrow> string set" where
  "assignedTeachers assignments = assignment_teacherId ` set assignments"

text \<open>Mean and standard deviation of the per-teacher assignment counts.\<close>

definition meanCount :: "Assignment list \<Rightarrow> real" where
  "meanCount assignments =
     (\<Sum>t \<in> assignedTeachers assignments. real (assignmentsOf assignments t)) /
     real (card (assignedTeachers assignments))"

definition stdDevCount :: "Assignment list \<Rightarrow> real" where
  "stdDevCount assignments =
     sqrt ((\<Sum>t \<in> assignedTeachers assignments.
              (real (assignmentsOf assignments t) - meanCount assignments)\<^sup>2) /
           real (card (assignedTeachers assignments)))"

text \<open>
  \<open>max(0, min(1, 1 - stdDev / mean))\<close>, a zero mean counting as perfectly balanced.
\<close>

definition balanceOfCounts :: "Assignment list \<Rightarrow> real" where
  "balanceOfCounts assignments =
     (if meanCount assignments = 0 then 1
      else max 0 (min 1 (1 - stdDevCount assignments / meanCount assignments)))"

section \<open>Notions of the specification, for the assignment engine\<close>

text \<open>
  The starting load of a teacher id, read from the records the caller supplies: the
  \<open>currentLoad\<close> of the record that carries the id, of the last such record when several
  records carry it, and \<open>0\<close> for an id that no record carries.
\<close>

definition startingLoad :: "TeacherCandidate list \<Rightarrow> string \<Rightarrow> int" where
  "startingLoad teachers i =
     (case filter (\<lambda>teacher. teacher_id teacher = i) teachers of
        [] \<Rightarrow> 0
      | t # ts \<Rightarrow> teacher_currentLoad (last (t # ts)))"

text \<open>The number of assignments a teacher id received in a run.\<close>

definition received :: "DetailedAssignment list \<Rightarrow> string \<Rightarrow> int" where
  "received assignments i = int (length (filter (\<lambda>a. teacherId a = i) assignments))"

text \<open>
  The post-run load of a teacher id: its starting load plus the assignments it received
  in the run.
\<close>

definition postRunLoad :: "TeacherCandidate list \<Rightarrow> DetailedAssignment list \<Rightarrow> string \<Rightarrow> int" where
  "postRunLoad teachers assignments i = startingLoad teachers i + received assignments i"

text \<open>A score below the optional minimum threshold, read literally.\<close>

definition scoreBelowThreshold :: "AutoAssignmentOptions \<Rightarrow> CompatibilityScore \<Rightarrow> bool" where
  "scoreBelowThreshold options sc =
     (case minCompatibilityThreshold options of None \<Rightarrow> False | Some thr \<Rightarrow> overall sc < thr)"

text \<open>
  Every teacher is at capacity or scores below the threshold for the student, at the
  loads of the table \<open>teacherLoads\<close>.
\<close>

definition noTeacherAvailable ::
  "AutoAssignmentOptions \<Rightarrow> real \<Rightarrow> int \<Rightarrow> CompatibilityScoreFn \<Rightarrow> TeacherLoads \<Rightarrow>
   TeacherCandidate list \<Rightarrow> StudentCandidate \<Rightarrow> bool" where
  "noTeacherAvailable options averageLoad maxLoad scoreFn teacherLoads teachers student =
     list_all (\<lambda>teacher.
        case teacherLoads (teacher_id teacher) of
          None \<Rightarrow> False
        | Some cur \<Rightarrow>
            cur \<ge> maxLoad \<or>
            scoreBelowThreshold options
              (scoreFn ((teacher_analysisData teacher)\<lparr>currentLoad := cur\<rparr>)
                 (student_analysisData student) averageLoad)) teachers"

text \<open>
  The same with the threshold as the run applies it: a threshold counts only when it is
  supplied and is not \<open>0\<close>.
\<close>

definition noTeacherEligible ::
  "AutoAssignmentOptions \<Rightarrow> real \<Rightarrow> int \<Rightarrow> CompatibilityScoreFn \<Rightarrow> TeacherLoads \<Rightarrow>
   TeacherCandidate list \<Rightarrow> StudentCandidate \<Rightarrow> bool" where
  "noTeacherEligible options averageLoad maxLoad scoreFn teacherLoads teachers student =
     list_all (\<lambda>teacher.
        case teacherLoads (teacher_id teacher) of
          None \<Rightarrow> False
        | Some cur \<Rightarrow>
            cur \<ge> maxLoad \<or>
            belowThreshold options
              (scoreFn ((teacher_analysisData teacher)\<lparr>currentLoad := cur\<rparr>)
                 (student_analysisData student) averageLoad)) teachers"

text \<open>
  The greedy selection as the specification words it. For one student: the teachers
  whose running load is under the cap, in input order, each with its score; without
  those whose score is below the threshold.
\<close>

definition eligibleTeachers ::
  "AutoAssignmentOptions \<Rightarrow> real \<Rightarrow> int \<Rightarrow> CompatibilityScoreFn \<Rightarrow> (string \<Rightarrow> int) \<Rightarrow>
   TeacherCandidate list \<Rightarrow> StudentCandidate \<Rightarrow> (string \<times> CompatibilityScore) list" where
  "eligibleTeachers options averageLoad maxLoad scoreFn load teachers student =
     filter (\<lambda>(i, sc). \<not> scoreBelowThreshold options sc)
       (map (\<lambda>teacher.
               (teacher_id teacher,
                scoreFn ((teacher_analysisData teacher)\<lparr>currentLoad := load (teacher_id teacher)\<rparr>)
                  (student_analysisData student) averageLoad))
          (filter (\<lambda>teacher. load (teacher_id teacher) < maxLoad) teachers))"

text \<open>
  The strictly highest overall score, the first-seen candidate winning ties: the first
  candidate that no candidate exceeds.
\<close>

definition firstHighest :: "(string \<times> CompatibilityScore) list \<Rightarrow> (string \<times> CompatibilityScore) option" where
  "firstHighest candidates =
     List.find (\<lambda>c. list_all (\<lambda>d. overall (snd d) \<le> overall (snd c)) candidates) candidates"

text \<open>
  Students in input order; the pairing of the selected teacher is committed and that
  teacher's running load goes up by one before the next student.
\<close>

fun greedyAssignment ::
  "AutoAssignmentOptions \<Rightarrow> real \<Rightarrow> int \<Rightarrow> CompatibilityScoreFn \<Rightarrow> TeacherCandidate list \<Rightarrow>
   (string \<Rightarrow> int) \<Rightarrow> StudentCandidate list \<Rightarrow> DetailedAssignment list" where
  "greedyAssignment options averageLoad maxLoad scoreFn teachers load [] = []"
| "greedyAssignment options averageLoad maxLoad scoreFn teachers load (student # rest) =
     (case firstHighest (eligibleTeachers options averageLoad maxLoad scoreFn load teachers student) of
        None \<Rightarrow> greedyAssignment options averageLoad maxLoad scoreFn teachers load rest
      | Some (i, sc) \<Rightarrow>
          \<lparr>studentId = student_id student, teacherId = i, score = sc\<rparr> #
          greedyAssignment options averageLoad maxLoad scoreFn teachers (load(i := load i + 1)) rest)"

section \<open>Notions of the specification, for the composition analyzer\<close>

text \<open>The type codes of the teachers that have one, in roster order.\<close>

definition typeCodes :: "'a TeacherTeamData_scheme list \<Rightarrow> string list" where
  "typeCodes teachers = filter (\<lambda>m. m \<noteq> []) (List.map_filter mbtiType teachers)"

text \<open>
  The occurrence count of a letter: the number of type codes that contain it (the source
  upper-cases the code and asks \<open>includes\<close>).
\<close>

definition letterCount :: "char \<Rightarrow> 'a TeacherTeamData_scheme list \<Rightarrow> nat" where
  "letterCount c teachers =
     length (filter (\<lambda>m. includesChar (toUpperCase m) c) (typeCodes teachers))"

text \<open>
  The ratio the specification describes: the percentage of a letter's count over the sum of
  the counts of the two opposing letters of its axis, \<open>0\<close> when that sum is zero.
\<close>

definition ownAxisRatio :: "nat \<Rightarrow> nat \<Rightarrow> real" where
  "ownAxisRatio x opposite =
     (if x + opposite = 0 then 0 else real x / real (x + opposite) * 100)"

text \<open>A type code with exactly one letter of each of the four axes.\<close>

definition oneLetterPerAxis :: "string \<Rightarrow> bool" where
  "oneLetterPerAxis m =
     (let ty = toUpperCase m
      in (includesChar ty CHR ''E'' \<noteq> includesChar ty CHR ''I'') \<and>
         (includesChar ty CHR ''S'' \<noteq> includesChar ty CHR ''N'') \<and>
         (includesChar ty CHR ''T'' \<noteq> includesChar ty CHR ''F'') \<and>
         (includesChar ty CHR ''J'' \<noteq> includesChar ty CHR ''P''))"

text \<open>The grade labels of the teachers' student-grade lists, in roster order.\<close>

definition gradeLabels :: "'a TeacherTeamData_scheme list \<Rightarrow> string list" where
  "gradeLabels teachers =
     concat (map (\<lambda>teacher.
                    map gradeToLabel (case studentGrades teacher of None \<Rightarrow> [] | Some gs \<Rightarrow> gs))
               teachers)"

text \<open>
  A tally below 50% of the expected even share \<open>teacherCount / numberOfCategories\<close>.
\<close>

definition isWeak :: "nat \<Rightarrow> nat \<Rightarrow> nat \<Rightarrow> bool" where
  "isWeak tally teachers categories =
     (real tally < real teachers / real categories * (1 / 2))"

text \<open>
  The interface \<open>TeacherTeamData\<close> has no field for the subjects of a teacher. A roster
  entry that carries them as a further field, and the number of occurrences of a subject
  name across such teachers:
\<close>

record TeacherWithSubjects = TeacherTeamData +
  teaches :: "string list"

definition subjectOccurrences :: "'a TeacherWithSubjects_scheme list \<Rightarrow> string \<Rightarrow> nat" where
  "subjectOccurrences teachers subject = count_list (concat (map teaches teachers)) subject"

section \<open>Example inputs\<close>

text \<open>Concrete inputs at which the theorems below are instantiated.\<close>

text \<open>The default \<open>options = {}\<close>.\<close>

definition noOptions :: AutoAssignmentOptions where
  "noOptions = \<lparr>maxStudentsPerTeacher = None, minCompatibilityThreshold = None\<rparr>"

definition exampleTeacher :: "string \<Rightarrow> int \<Rightarrow> TeacherCandidate" where
  "exampleTeacher i n =
     \<lparr>teacher_id = i, teacher_currentLoad = n,
      teacher_analysisData = \<lparr>mbti = None, saju = None, name = None, currentLoad = n\<rparr>\<rparr>"

definition exampleStudent :: "string \<Rightarrow> StudentCandidate" where
  "exampleStudent i =
     \<lparr>student_id = i, student_analysisData = \<lparr>mbti = None, saju = None, name = None\<rparr>\<rparr>"

text \<open>A scoring function that gives every pair the same score.\<close>

definition constantScore :: "real \<Rightarrow> CompatibilityScoreFn" where
  "constantScore x t s a =
     \<lparr>overall = x,
      breakdown = \<lparr>breakdown_mbti = x, breakdown_learningStyle = x, breakdown_saju = x,
                   breakdown_name = x, breakdown_loadBalance = x\<rparr>,
      reasons = []\<rparr>"

text \<open>A scoring function that prefers the less loaded teacher.\<close>

definition loadAwareScore :: CompatibilityScoreFn where
  "loadAwareScore t s a =
     \<lparr>overall = max 0 (80 - 10 * real_of_int (currentLoad t)),
      breakdown = \<lparr>breakdown_mbti = 0, breakdown_learningStyle = 0, breakdown_saju = 0,
                   breakdown_name = 0, breakdown_loadBalance = 0\<rparr>,
      reasons = []\<rparr>"

definition exampleAssignment :: "string \<Rightarrow> string \<Rightarrow> real \<Rightarrow> Assignment" where
  "exampleAssignment s t x =
     \<lparr>assignment_studentId = s, assignment_teacherId = t, assignment_score = x\<rparr>"

text \<open>Three teachers with four assignments each.\<close>

definition balancedAssignments :: "Assignment list" where
  "balancedAssignments =
     [exampleAssignment ''s01'' ''t1'' 80, exampleAssignment ''s02'' ''t2'' 70,
      exampleAssignment ''s03'' ''t3'' 60, exampleAssignment ''s04'' ''t1'' 50,
      exampleAssignment ''s05'' ''t2'' 80, exampleAssignment ''s06'' ''t3'' 70,
      exampleAssignment ''s07'' ''t1'' 60, exampleAssignment ''s08'' ''t2'' 50,
      exampleAssignment ''s09'' ''t3'' 80, exampleAssignment ''s10'' ''t1'' 70,
      exampleAssignment ''s11'' ''t2'' 60, exampleAssignment ''s12'' ''t3'' 50]"

text \<open>A roster entry with a type code and a list of student grades.\<close>

definition rosterTeacher :: "string \<Rightarrow> string option \<Rightarrow> int list \<Rightarrow> TeacherTeamData" where
  "rosterTeacher i ty gs =
     \<lparr>teamData_id = i, teamData_name = i, role = ''TEACHER'', createdAt = 0,
      mbtiType = ty, mbtiPercentages = None, sajuResult = None, studentGrades = Some gs\<rparr>"

text \<open>Four teachers that share one type code.\<close>

definition sameTypeRoster :: "TeacherTeamData list" where
  "sameTypeRoster =
     [rosterTeacher ''a'' (Some ''INTJ'') [], rosterTeacher ''b'' (Some ''INTJ'') [],
      rosterTeacher ''c'' (Some ''INTJ'') [], rosterTeacher ''d'' (Some ''INTJ'') []]"

text \<open>
  A roster of well-formed type codes (one lower-case, one teacher without a code), and a
  roster in which one code leaves the first axis open.
\<close>

definition validRoster :: "TeacherTeamData list" where
  "validRoster = [rosterTeacher ''a'' (Some ''ENTJ'') [], rosterTeacher ''b'' (Some ''isfp'') [],
                  rosterTeacher ''c'' None []]"


definition mixedRoster :: "TeacherTeamData list" where
  "mixedRoster = [rosterTeacher ''a'' (Some ''ENTJ'') [], rosterTeacher ''b'' (Some ''XSTJ'') []]"

text \<open>Two teachers of mathematics (the first of \<open>SUBJECTS\<close>), with students in grades 1 and 4.\<close>

definition mathematics :: string where
  "mathematics = [CHR 0xEC, CHR 0x88, CHR 0x98, CHR 0xED, CHR 0x95, CHR 0x99]"

definition mathTeacher :: "string \<Rightarrow> TeacherWithSubjects" where
  "mathTeacher i =
     \<lparr>teamData_id = i, teamData_name = i, role = ''TEACHER'', createdAt = 0,
      mbtiType = None, mbtiPercentages = None, sajuResult = None, studentGrades = Some [1, 4],
      teaches = [mathematics]\<rparr>"

definition subjectRoster :: "TeacherWithSubjects list" where
  "subjectRoster = [mathTeacher ''a'', mathTeacher ''b'']"

lemmas example_defs =
  noOptions_def exampleTeacher_def exampleStudent_def constantScore_def

lemmas engine_defs =
  generateAutoAssignment_def autoAssignmentRun_def effectiveMaxLoad_def belowThreshold_def
  improves_def Let_def

section \<open>Properties of the assignment engine\<close>

subsection \<open>The run always returns\<close>

lemma seedLoads_dom: "dom (seedLoads teachers teacherLoads) = dom teacherLoads \<union> teacher_id ` set teachers"
  by (induction teachers arbitrary: teacherLoads) auto

lemma scanTeachers_total:
  "teacher_id ` set teachers \<subseteq> dom teacherLoads \<Longrightarrow>
   \<exists>b. scanTeachers options averageLoad maxLoad scoreFn teacherLoads student teachers best = Some b"
  by (induction teachers arbitrary: best) (auto simp: Let_def)

text \<open>What the inner loop returns is the best so far or a teacher it has scored.\<close>

lemma scanTeachers_result:
  "scanTeachers options averageLoad maxLoad scoreFn teacherLoads student teachers best = Some (Some (i, sc)) \<Longrightarrow>
   best = Some (i, sc) \<or>
   (\<exists>teacher cur. teacher \<in> set teachers \<and> teacher_id teacher = i \<and> teacherLoads i = Some cur \<and>
      cur < maxLoad \<and>
      sc = scoreFn ((teacher_analysisData teacher)\<lparr>currentLoad := cur\<rparr>)
             (student_analysisData student) averageLoad \<and>
      \<not> belowThreshold options sc)"
proof (induction teachers arbitrary: best)
  case Nil
  then show ?case by simp
next
  case (Cons teacher rest)
  from Cons.prems obtain cur where cur: "teacherLoads (teacher_id teacher) = Some cur"
    by (auto split: option.splits)
  let ?sc = "scoreFn ((teacher_analysisData teacher)\<lparr>currentLoad := cur\<rparr>)
               (student_analysisData student) averageLoad"
  show ?case
  proof (cases "cur < maxLoad \<and> \<not> belowThreshold options ?sc \<and> improves ?sc best")
    case True
    with Cons.prems cur
    have "scanTeachers options averageLoad maxLoad scoreFn teacherLoads student rest
            (Some (teacher_id teacher, ?sc)) = Some (Some (i, sc))"
      by (simp add: Let_def)
    from Cons.IH[OF this] True cur show ?thesis by auto
  next
    case False
    with Cons.prems cur
    have "scanTeachers options averageLoad maxLoad scoreFn teacherLoads student rest best =
            Some (Some (i, sc))"
      by (auto simp: Let_def split: if_splits)
    from Cons.IH[OF this] show ?thesis by auto
  qed
qed

lemma assignStudents_total:
  "teacher_id ` set teachers \<subseteq> dom teacherLoads \<Longrightarrow>
   \<exists>r. assignStudents options averageLoad maxLoad scoreFn teachers teacherLoads students assignments = Some r"
proof (induction students arbitrary: teacherLoads assignments)
  case Nil
  then show ?case by simp
next
  case (Cons student rest)
  from scanTeachers_total[OF Cons.prems]
  obtain b where b: "scanTeachers options averageLoad maxLoad scoreFn teacherLoads student teachers None = Some b"
    by blast
  show ?case
  proof (cases b)
    case None
    with b Cons.IH[OF Cons.prems] show ?thesis by simp
  next
    case (Some p)
    obtain i sc where p: "p = (i, sc)" by (cases p)
    from scanTeachers_result[of options averageLoad maxLoad scoreFn teacherLoads student teachers None i sc]
      b Some p
    obtain cur where cur: "teacherLoads i = Some cur" by auto
    have "teacher_id ` set teachers \<subseteq> dom (teacherLoads(i \<mapsto> cur + 1))"
      using Cons.prems by auto
    from Cons.IH[OF this]
    obtain r1 where r1: "assignStudents options averageLoad maxLoad scoreFn teachers
        (teacherLoads(i \<mapsto> cur + 1)) rest
        (assignments @ [\<lparr>studentId = student_id student, teacherId = i, score = sc\<rparr>]) = Some r1"
      by blast
    from Cons.IH[OF Cons.prems]
    obtain r2 where r2: "assignStudents options averageLoad maxLoad scoreFn teachers
        teacherLoads rest assignments = Some r2"
      by blast
    show ?thesis
      by (cases "i = []") (simp_all add: b Some p cur r1 r2)
  qed
qed

lemma autoAssignmentRun_total:
  "\<exists>r. autoAssignmentRun students teachers scoreFn options = Some r"
proof -
  have "teacher_id ` set teachers \<subseteq> dom (seedLoads teachers Map.empty)"
    by (simp add: seedLoads_dom)
  from assignStudents_total[OF this] show ?thesis
    unfolding autoAssignmentRun_def Let_def by simp
qed

lemma generateAutoAssignment_total:
  "\<exists>r. generateAutoAssignment students teachers scoreFn options = Some r"
  using autoAssignmentRun_total[of students teachers scoreFn options]
  by (auto simp: generateAutoAssignment_def)

subsection \<open>One step of the outer loop\<close>

lemma assignStudents_acc:
  "assignStudents options averageLoad maxLoad scoreFn teachers teacherLoads students assignments =
   map_option (\<lambda>(r, l). (assignments @ r, l))
     (assignStudents options averageLoad maxLoad scoreFn teachers teacherLoads students [])"
proof (induction students arbitrary: teacherLoads assignments)
  case Nil
  then show ?case by simp
next
  case (Cons student rest)
  show ?case
  proof (cases "scanTeachers options averageLoad maxLoad scoreFn teacherLoads student teachers None")
    case None
    then show ?thesis by simp
  next
    case (Some b)
    show ?thesis
    proof (cases b)
      case None
      with Some Cons.IH[of teacherLoads assignments] show ?thesis by simp
    next
      case inner: (Some p)
      obtain i sc where p: "p = (i, sc)" by (cases p)
      show ?thesis
      proof (cases "i \<noteq> [] \<and> teacherLoads i \<noteq> None")
        case True
        then obtain cur where cur: "teacherLoads i = Some cur" by auto
        let ?a = "\<lparr>studentId = student_id student, teacherId = i, score = sc\<rparr>"
        let ?run = "assignStudents options averageLoad maxLoad scoreFn teachers
                      (teacherLoads(i \<mapsto> cur + 1)) rest"
        have l: "assignStudents options averageLoad maxLoad scoreFn teachers teacherLoads
                   (student # rest) assignments = ?run (assignments @ [?a])"
          using Some inner p True cur by simp
        have r: "assignStudents options averageLoad maxLoad scoreFn teachers teacherLoads
                   (student # rest) [] = ?run [?a]"
          using Some inner p True cur by simp
        have 1: "?run (assignments @ [?a]) =
                 map_option (\<lambda>(r, l). ((assignments @ [?a]) @ r, l)) (?run [])"
          by (rule Cons.IH)
        have 2: "?run [?a] = map_option (\<lambda>(r, l). ([?a] @ r, l)) (?run [])"
          by (rule Cons.IH)
        show ?thesis
          unfolding l r 1 2 by (cases "?run []") auto
      next
        case False
        then consider "i = []" | "i \<noteq> []" "teacherLoads i = None" by blast
        then show ?thesis
        proof cases
          case 1
          with Some inner p Cons.IH[of teacherLoads assignments] show ?thesis by simp
        next
          case 2
          with Some inner p show ?thesis by simp
        qed
      qed
    qed
  qed
qed

text \<open>
  A step either leaves the table and the assignments as they are (no teacher was found, or
  the one found has the empty id), or it commits one pairing with a teacher whose load
  was under the cap.
\<close>

lemma assignStudents_step:
  assumes "assignStudents options averageLoad maxLoad scoreFn teachers teacherLoads
             (student # rest) [] = Some (r, l')"
  shows "assignStudents options averageLoad maxLoad scoreFn teachers teacherLoads rest [] = Some (r, l') \<or>
         (\<exists>i sc cur r'.
            i \<noteq> [] \<and>
            scanTeachers options averageLoad maxLoad scoreFn teacherLoads student teachers None =
              Some (Some (i, sc)) \<and>
            teacherLoads i = Some cur \<and> cur < maxLoad \<and>
            r = \<lparr>studentId = student_id student, teacherId = i, score = sc\<rparr> # r' \<and>
            assignStudents options averageLoad maxLoad scoreFn teachers
              (teacherLoads(i \<mapsto> cur + 1)) rest [] = Some (r', l'))"
proof (cases "scanTeachers options averageLoad maxLoad scoreFn teacherLoads student teachers None")
  case None
  with assms show ?thesis by simp
next
  case (Some b)
  show ?thesis
  proof (cases b)
    case None
    with Some assms show ?thesis by simp
  next
    case inner: (Some p)
    obtain i sc where p: "p = (i, sc)" by (cases p)
    show ?thesis
    proof (cases "i = []")
      case True
      with Some inner p assms show ?thesis by simp
    next
      case False
      from scanTeachers_result[of options averageLoad maxLoad scoreFn teacherLoads student teachers None i sc]
        Some inner p
      obtain cur where cur: "teacherLoads i = Some cur" "cur < maxLoad" by auto
      let ?a = "\<lparr>studentId = student_id student, teacherId = i, score = sc\<rparr>"
      have "assignStudents options averageLoad maxLoad scoreFn teachers
              (teacherLoads(i \<mapsto> cur + 1)) rest [?a] = Some (r, l')"
        using assms Some inner p False cur by simp
      then obtain r' where "r = ?a # r'"
        "assignStudents options averageLoad maxLoad scoreFn teachers
              (teacherLoads(i \<mapsto> cur + 1)) rest [] = Some (r', l')"
        by (subst (asm) assignStudents_acc) auto
      with Some inner p False cur show ?thesis by blast
    qed
  qed
qed

subsection \<open>Order and number of the assignments\<close>

lemma assignStudents_subseq:
  "assignStudents options averageLoad maxLoad scoreFn teachers teacherLoads students [] = Some (r, l') \<Longrightarrow>
   subseq (map studentId r) (map student_id students)"
proof (induction students arbitrary: teacherLoads r)
  case Nil
  then show ?case by simp
next
  case (Cons student rest)
  from assignStudents_step[OF Cons.prems] show ?case
  proof
    assume "assignStudents options averageLoad maxLoad scoreFn teachers teacherLoads rest [] = Some (r, l')"
    from Cons.IH[OF this] show ?thesis by (simp add: list_emb_Cons)
  next
    assume "\<exists>i sc cur r'.
            i \<noteq> [] \<and>
            scanTeachers options averageLoad maxLoad scoreFn teacherLoads student teachers None =
              Some (Some (i, sc)) \<and>
            teacherLoads i = Some cur \<and> cur < maxLoad \<and>
            r = \<lparr>studentId = student_id student, teacherId = i, score = sc\<rparr> # r' \<and>
            assignStudents options averageLoad maxLoad scoreFn teachers
              (teacherLoads(i \<mapsto> cur + 1)) rest [] = Some (r', l')"
    then obtain i sc cur r' where
      r: "r = \<lparr>studentId = student_id student, teacherId = i, score = sc\<rparr> # r'" and
      run: "assignStudents options averageLoad maxLoad scoreFn teachers
              (teacherLoads(i \<mapsto> cur + 1)) rest [] = Some (r', l')"
      by blast
    from Cons.IH[OF run] r show ?thesis by simp
  qed
qed

lemma generateAutoAssignment_subseq:
  "\<exists>assignments.
     generateAutoAssignment students teachers scoreFn options = Some assignments \<and>
     subseq (map studentId assignments) (map student_id students)"
proof -
  from autoAssignmentRun_total[of students teachers scoreFn options]
  obtain r l' where run: "autoAssignmentRun students teachers scoreFn options = Some (r, l')"
    by force
  have "subseq (map studentId r) (map student_id students)"
  proof (cases "teachers = [] \<or> students = []")
    case True
    with run have "r = []" by (auto simp: autoAssignmentRun_def)
    then show ?thesis by simp
  next
    case False
    with run show ?thesis
      by (auto simp: autoAssignmentRun_def Let_def intro: assignStudents_subseq)
  qed
  with run show ?thesis by (simp add: generateAutoAssignment_def)
qed

text \<open>
  Claim C4, as stated, at two input students that carry the same id and one teacher with
  room for both: the returned list has two entries for that studentId.
\<close>

theorem repeated_student_assigned_twice:
  "map_option (map studentId)
     (generateAutoAssignment [exampleStudent ''s1'', exampleStudent ''s1'']
        [exampleTeacher ''t1'' 0] (constantScore 80) noOptions) =
   Some [''s1'', ''s1'']"
  by (simp add: engine_defs example_defs)

text \<open>
  Claim C4, amended. Every call returns a list whose studentIds form a subsequence of the
  ids of the input students: the entries keep the input order, there are at most
  \<open>students.length\<close> of them, a studentId occurs at most as often as among the input
  students, hence at most once when the ids of the input students are distinct.
\<close>

theorem assignments_follow_students:
  "\<exists>assignments.
     generateAutoAssignment students teachers scoreFn options = Some assignments \<and>
     subseq (map studentId assignments) (map student_id students) \<and>
     length assignments \<le> length students \<and>
     (distinct (map student_id students) \<longrightarrow> distinct (map studentId assignments))"
proof -
  from generateAutoAssignment_subseq[of students teachers scoreFn options]
  obtain assignments where
    run: "generateAutoAssignment students teachers scoreFn options = Some assignments" and
    sub: "subseq (map studentId assignments) (map student_id students)"
    by blast
  from list_emb_length[OF sub] have "length assignments \<le> length students" by simp
  moreover have "distinct (map student_id students) \<longrightarrow> distinct (map studentId assignments)"
    using sub subseqs_distinctD[of "map studentId assignments" "map student_id students"]
    by simp
  ultimately show ?thesis using run sub by blast
qed

theorem assignments_follow_students_witness:
  "distinct (map student_id [exampleStudent ''s1'', exampleStudent ''s2'']) \<and>
   (\<exists>assignments.
     generateAutoAssignment [exampleStudent ''s1'', exampleStudent ''s2'']
       [exampleTeacher ''t1'' 0] (constantScore 80) noOptions = Some assignments \<and>
     subseq (map studentId assignments)
       (map student_id [exampleStudent ''s1'', exampleStudent ''s2'']) \<and>
     length assignments \<le> length [exampleStudent ''s1'', exampleStudent ''s2''] \<and>
     distinct (map studentId assignments))"
proof -
  have d: "distinct (map student_id [exampleStudent ''s1'', exampleStudent ''s2''])"
    by (simp add: exampleStudent_def)
  from assignments_follow_students[of "[exampleStudent ''s1'', exampleStudent ''s2'']"
      "[exampleTeacher ''t1'' 0]" "constantScore 80" noOptions] d
  show ?thesis by blast
qed

subsection \<open>Loads and the cap\<close>

text \<open>
  The table the run starts from holds, for an id, the \<open>currentLoad\<close> of the last record
  that carries it.
\<close>

lemma seedLoads_last:
  "seedLoads teachers teacherLoads i =
     (case filter (\<lambda>teacher. teacher_id teacher = i) teachers of
        [] \<Rightarrow> teacherLoads i
      | t # ts \<Rightarrow> Some (teacher_currentLoad (last (t # ts))))"
  by (induction teachers arbitrary: teacherLoads) (auto split: list.splits)

lemma seedLoads_startingLoad:
  "teacher \<in> set teachers \<Longrightarrow>
   seedLoads teachers Map.empty (teacher_id teacher) = Some (startingLoad teachers (teacher_id teacher))"
proof -
  assume "teacher \<in> set teachers"
  then have "filter (\<lambda>t. teacher_id t = teacher_id teacher) teachers \<noteq> []"
    by (auto simp: filter_empty_conv)
  then show ?thesis
    by (simp add: seedLoads_last startingLoad_def split: list.splits)
qed

lemma seedLoads_notin:
  "i \<notin> teacher_id ` set teachers \<Longrightarrow> seedLoads teachers teacherLoads i = teacherLoads i"
  by (induction teachers arbitrary: teacherLoads) auto

lemma seedLoads_distinct:
  "distinct (map teacher_id teachers) \<Longrightarrow> teacher \<in> set teachers \<Longrightarrow>
   seedLoads teachers teacherLoads (teacher_id teacher) = Some (teacher_currentLoad teacher)"
proof (induction teachers arbitrary: teacherLoads)
  case Nil
  then show ?case by simp
next
  case (Cons t rest)
  show ?case
  proof (cases "teacher = t")
    case True
    with Cons.prems have "teacher_id t \<notin> teacher_id ` set rest" by simp
    with True show ?thesis by (simp add: seedLoads_notin)
  next
    case False
    with Cons show ?thesis by simp
  qed
qed

lemma startingLoad_distinct:
  "distinct (map teacher_id teachers) \<Longrightarrow> teacher \<in> set teachers \<Longrightarrow>
   startingLoad teachers (teacher_id teacher) = teacher_currentLoad teacher"
  using seedLoads_startingLoad[of teacher teachers] seedLoads_distinct[of teachers teacher Map.empty]
  by simp

text \<open>
  The table after the loop holds, for every id, the load before the loop plus the
  assignments the id received, and that is no more than the larger of the load before the
  loop and the cap.
\<close>

lemma assignStudents_loads:
  "assignStudents options averageLoad maxLoad scoreFn teachers teacherLoads students [] = Some (r, l') \<Longrightarrow>
   teacherLoads i = Some l0 \<Longrightarrow>
   l' i = Some (l0 + received r i) \<and> l0 + received r i \<le> max l0 maxLoad"
proof (induction students arbitrary: teacherLoads r l0)
  case Nil
  then show ?case by (simp add: received_def)
next
  case (Cons student rest)
  from assignStudents_step[OF Cons.prems(1)] show ?case
  proof
    assume "assignStudents options averageLoad maxLoad scoreFn teachers teacherLoads rest [] = Some (r, l')"
    from Cons.IH[OF this Cons.prems(2)] show ?thesis .
  next
    assume "\<exists>j sc cur r'.
            j \<noteq> [] \<and>
            scanTeachers options averageLoad maxLoad scoreFn teacherLoads student teachers None =
              Some (Some (j, sc)) \<and>
            teacherLoads j = Some cur \<and> cur < maxLoad \<and>
            r = \<lparr>studentId = student_id student, teacherId = j, score = sc\<rparr> # r' \<and>
            assignStudents options averageLoad maxLoad scoreFn teachers
              (teacherLoads(j \<mapsto> cur + 1)) rest [] = Some (r', l')"
    then obtain j sc cur r' where
      cur: "teacherLoads j = Some cur" "cur < maxLoad" and
      r: "r = \<lparr>studentId = student_id student, teacherId = j, score = sc\<rparr> # r'" and
      run: "assignStudents options averageLoad maxLoad scoreFn teachers
              (teacherLoads(j \<mapsto> cur + 1)) rest [] = Some (r', l')"
      by blast
    show ?thesis
    proof (cases "i = j")
      case True
      then have "(teacherLoads(j \<mapsto> cur + 1)) i = Some (cur + 1)" by simp
      from Cons.IH[OF run this] True cur Cons.prems(2) r show ?thesis
        by (auto simp: received_def)
    next
      case False
      then have "(teacherLoads(j \<mapsto> cur + 1)) i = Some l0"
        using Cons.prems(2) by simp
      from Cons.IH[OF run this] False r show ?thesis
        by (auto simp: received_def)
    qed
  qed
qed

lemma autoAssignmentRun_loads:
  assumes "autoAssignmentRun students teachers scoreFn options = Some (r, l')"
    and "teacher \<in> set teachers"
  shows "postRunLoad teachers r (teacher_id teacher) \<le>
         max (startingLoad teachers (teacher_id teacher))
           (effectiveMaxLoad options (real (length students) / real (length teachers)))"
proof (cases "students = []")
  case True
  with assms have "r = []" by (simp add: autoAssignmentRun_def)
  then show ?thesis by (simp add: postRunLoad_def received_def)
next
  case False
  from assms(2) have "teachers \<noteq> []" by auto
  with False assms have run: "assignStudents options (real (length students) / real (length teachers))
      (effectiveMaxLoad options (real (length students) / real (length teachers))) scoreFn teachers
      (seedLoads teachers Map.empty) students [] = Some (r, l')"
    by (auto simp: autoAssignmentRun_def Let_def)
  from assignStudents_loads[OF run seedLoads_startingLoad[OF assms(2)]]
  show ?thesis by (simp add: postRunLoad_def)
qed

text \<open>
  Two records that carry the same id share one entry of the load table, which starts from
  the \<open>currentLoad\<close> of the second: with the records \<open>t1\<close> at load 5 and \<open>t1\<close> at
  load 0, and a cap of 2, the id starts from 0 and receives two students.
\<close>

lemma repeated_teacher_id_starts_from_last_record:
  "startingLoad [exampleTeacher ''t1'' 5, exampleTeacher ''t1'' 0] ''t1'' = 0 \<and>
   map_option (map (\<lambda>a. (studentId a, teacherId a)))
     (generateAutoAssignment [exampleStudent ''s1'', exampleStudent ''s2'', exampleStudent ''s3'']
        [exampleTeacher ''t1'' 5, exampleTeacher ''t1'' 0] (constantScore 80)
        (noOptions\<lparr>maxStudentsPerTeacher := Some 2\<rparr>)) =
   Some [(''s1'', ''t1''), (''s2'', ''t1'')]"
  by (simp add: engine_defs example_defs startingLoad_def)

text \<open>
  Claim C5, as stated, at one student and one teacher whose starting load is 5: the
  effective cap is \<open>ceil(1 / 1 * 1.2) = 2\<close>, the teacher receives nothing, and its
  post-run load is 5.
\<close>

theorem loaded_teacher_stays_above_cap:
  "generateAutoAssignment [exampleStudent ''s1''] [exampleTeacher ''t1'' 5] (constantScore 80) noOptions =
     Some [] \<and>
   effectiveMaxLoad noOptions
     (real (length [exampleStudent ''s1'']) / real (length [exampleTeacher ''t1'' 5])) = 2 \<and>
   teacher_currentLoad (exampleTeacher ''t1'' 5) = 5 \<and>
   postRunLoad [exampleTeacher ''t1'' 5] [] ''t1'' = 5"
  by (simp add: engine_defs example_defs postRunLoad_def startingLoad_def received_def)

text \<open>
  Claim C5, amended. Every call returns at most \<open>students.length\<close> assignments. When the
  teacher ids are distinct, the post-run load of every teacher (its \<open>currentLoad\<close> plus
  the assignments it received in the run) is at most the larger of its \<open>currentLoad\<close>
  and the effective cap: a teacher whose \<open>currentLoad\<close> is at or under the cap ends at or
  under it, and one whose \<open>currentLoad\<close> is at or above the cap receives nothing. For any
  teachers, distinct ids or not, the same holds of every teacher id with the starting load
  of the id: the \<open>currentLoad\<close> of the last record that carries it. The cap is
  \<open>maxStudentsPerTeacher\<close> when supplied and
  \<open>ceil((students.length / teachers.length) * 1.2)\<close> otherwise.
\<close>

theorem post_run_load_bounded:
  "\<exists>assignments.
     generateAutoAssignment students teachers scoreFn options = Some assignments \<and>
     length assignments \<le> length students \<and>
     (distinct (map teacher_id teachers) \<longrightarrow>
      (\<forall>teacher \<in> set teachers.
         teacher_currentLoad teacher + received assignments (teacher_id teacher) \<le>
           max (teacher_currentLoad teacher)
             (effectiveMaxLoad options (real (length students) / real (length teachers))) \<and>
         (teacher_currentLoad teacher \<le>
            effectiveMaxLoad options (real (length students) / real (length teachers)) \<longrightarrow>
          teacher_currentLoad teacher + received assignments (teacher_id teacher) \<le>
            effectiveMaxLoad options (real (length students) / real (length teachers))) \<and>
         (effectiveMaxLoad options (real (length students) / real (length teachers)) \<le>
            teacher_currentLoad teacher \<longrightarrow>
          received assignments (teacher_id teacher) = 0))) \<and>
     (\<forall>teacher \<in> set teachers.
        postRunLoad teachers assignments (teacher_id teacher) \<le>
          max (startingLoad teachers (teacher_id teacher))
            (effectiveMaxLoad options (real (length students) / real (length teachers))) \<and>
        (startingLoad teachers (teacher_id teacher) \<le>
           effectiveMaxLoad options (real (length students) / real (length teachers)) \<longrightarrow>
         postRunLoad teachers assignments (teacher_id teacher) \<le>
           effectiveMaxLoad options (real (length students) / real (length teachers))) \<and>
        (effectiveMaxLoad options (real (length students) / real (length teachers)) \<le>
           startingLoad teachers (teacher_id teacher) \<longrightarrow>
         received assignments (teacher_id teacher) = 0) \<and>
        (distinct (map teacher_id teachers) \<longrightarrow>
         startingLoad teachers (teacher_id teacher) = teacher_currentLoad teacher)) \<and>
     effectiveMaxLoad options (real (length students) / real (length teachers)) =
       (case maxStudentsPerTeacher options of
          Some m \<Rightarrow> m
        | None \<Rightarrow> \<lceil>real (length students) / real (length teachers) * (12 / 10)\<rceil>)"
proof -
  let ?cap = "effectiveMaxLoad options (real (length students) / real (length teachers))"
  from autoAssignmentRun_total[of students teachers scoreFn options]
  obtain r l' where run: "autoAssignmentRun students teachers scoreFn options = Some (r, l')"
    by force
  then have gen: "generateAutoAssignment students teachers scoreFn options = Some r"
    by (simp add: generateAutoAssignment_def)
  from generateAutoAssignment_subseq[of students teachers scoreFn options] gen
  have "subseq (map studentId r) (map student_id students)" by simp
  from list_emb_length[OF this] have len: "length r \<le> length students" by simp
  have bound: "startingLoad teachers (teacher_id teacher) + received r (teacher_id teacher) \<le>
         max (startingLoad teachers (teacher_id teacher)) ?cap"
    if "teacher \<in> set teachers" for teacher
    using autoAssignmentRun_loads[OF run that] by (simp add: postRunLoad_def)
  have nonneg: "0 \<le> received r i" for i by (simp add: received_def)
  have general: "\<forall>teacher \<in> set teachers.
        postRunLoad teachers r (teacher_id teacher) \<le>
          max (startingLoad teachers (teacher_id teacher)) ?cap \<and>
        (startingLoad teachers (teacher_id teacher) \<le> ?cap \<longrightarrow>
         postRunLoad teachers r (teacher_id teacher) \<le> ?cap) \<and>
        (?cap \<le> startingLoad teachers (teacher_id teacher) \<longrightarrow>
         received r (teacher_id teacher) = 0) \<and>
        (distinct (map teacher_id teachers) \<longrightarrow>
         startingLoad teachers (teacher_id teacher) = teacher_currentLoad teacher)"
  proof
    fix teacher assume t: "teacher \<in> set teachers"
    from bound[OF t] nonneg[of "teacher_id teacher"] startingLoad_distinct[of teachers teacher] t
    show "postRunLoad teachers r (teacher_id teacher) \<le>
          max (startingLoad teachers (teacher_id teacher)) ?cap \<and>
        (startingLoad teachers (teacher_id teacher) \<le> ?cap \<longrightarrow>
         postRunLoad teachers r (teacher_id teacher) \<le> ?cap) \<and>
        (?cap \<le> startingLoad teachers (teacher_id teacher) \<longrightarrow>
         received r (teacher_id teacher) = 0) \<and>
        (distinct (map teacher_id teachers) \<longrightarrow>
         startingLoad teachers (teacher_id teacher) = teacher_currentLoad teacher)"
      by (auto simp: postRunLoad_def)
  qed
  have own: "distinct (map teacher_id teachers) \<longrightarrow>
      (\<forall>teacher \<in> set teachers.
         teacher_currentLoad teacher + received r (teacher_id teacher) \<le>
           max (teacher_currentLoad teacher) ?cap \<and>
         (teacher_currentLoad teacher \<le> ?cap \<longrightarrow>
          teacher_currentLoad teacher + received r (teacher_id teacher) \<le> ?cap) \<and>
         (?cap \<le> teacher_currentLoad teacher \<longrightarrow> received r (teacher_id teacher) = 0))"
  proof (intro impI ballI)
    fix teacher assume d: "distinct (map teacher_id teachers)" and t: "teacher \<in> set teachers"
    from bound[OF t] nonneg[of "teacher_id teacher"] startingLoad_distinct[OF d t]
    show "teacher_currentLoad teacher + received r (teacher_id teacher) \<le>
           max (teacher_currentLoad teacher) ?cap \<and>
         (teacher_currentLoad teacher \<le> ?cap \<longrightarrow>
          teacher_currentLoad teacher + received r (teacher_id teacher) \<le> ?cap) \<and>
         (?cap \<le> teacher_currentLoad teacher \<longrightarrow> received r (teacher_id teacher) = 0)"
      by auto
  qed
  have "?cap =
       (case maxStudentsPerTeacher options of
          Some m \<Rightarrow> m
        | None \<Rightarrow> \<lceil>real (length students) / real (length teachers) * (12 / 10)\<rceil>)"
    by (simp add: effectiveMaxLoad_def)
  with gen len own general show ?thesis by blast
qed

text \<open>
  Three students, the teacher \<open>t1\<close> at load 0 and the teacher \<open>t2\<close> at load 5, no
  options: the cap is \<open>ceil(3 / 2 * 1.2) = 2\<close>, \<open>t1\<close> receives the first two students
  and ends at the cap, \<open>t2\<close> receives nothing and stays at 5, the third student is left out.
\<close>

theorem post_run_load_bounded_witness:
  "distinct (map teacher_id [exampleTeacher ''t1'' 0, exampleTeacher ''t2'' 5]) \<and>
   effectiveMaxLoad noOptions
     (real (length [exampleStudent ''s1'', exampleStudent ''s2'', exampleStudent ''s3'']) /
      real (length [exampleTeacher ''t1'' 0, exampleTeacher ''t2'' 5])) = 2 \<and>
   map_option (map (\<lambda>a. (studentId a, teacherId a)))
     (generateAutoAssignment [exampleStudent ''s1'', exampleStudent ''s2'', exampleStudent ''s3'']
        [exampleTeacher ''t1'' 0, exampleTeacher ''t2'' 5] (constantScore 80) noOptions) =
     Some [(''s1'', ''t1''), (''s2'', ''t1'')] \<and>
   (\<exists>assignments.
      generateAutoAssignment [exampleStudent ''s1'', exampleStudent ''s2'', exampleStudent ''s3'']
        [exampleTeacher ''t1'' 0, exampleTeacher ''t2'' 5] (constantScore 80) noOptions =
        Some assignments \<and>
      length assignments \<le> 3 \<and>
      teacher_currentLoad (exampleTeacher ''t1'' 0) + received assignments ''t1'' \<le> 2 \<and>
      received assignments ''t2'' = 0 \<and>
      postRunLoad [exampleTeacher ''t1'' 0, exampleTeacher ''t2'' 5] assignments ''t1'' \<le> 2 \<and>
      postRunLoad [exampleTeacher ''t1'' 0, exampleTeacher ''t2'' 5] assignments ''t2'' \<le> 5)"
proof -
  let ?students = "[exampleStudent ''s1'', exampleStudent ''s2'', exampleStudent ''s3'']"
  let ?teachers = "[exampleTeacher ''t1'' 0, exampleTeacher ''t2'' 5]"
  have d: "distinct (map teacher_id ?teachers)"
    by (simp add: exampleTeacher_def)
  have cap: "effectiveMaxLoad noOptions (real (length ?students) / real (length ?teachers)) = 2"
    by (simp add: effectiveMaxLoad_def noOptions_def)
  have run: "map_option (map (\<lambda>a. (studentId a, teacherId a)))
     (generateAutoAssignment ?students ?teachers (constantScore 80) noOptions) =
     Some [(''s1'', ''t1''), (''s2'', ''t1'')]"
    by (simp add: engine_defs example_defs)
  have ids: "teacher_id (exampleTeacher ''t1'' 0) = ''t1''" "teacher_id (exampleTeacher ''t2'' 5) = ''t2''"
    "teacher_currentLoad (exampleTeacher ''t1'' 0) = 0" "teacher_currentLoad (exampleTeacher ''t2'' 5) = 5"
    by (simp_all add: exampleTeacher_def)
  have start: "startingLoad ?teachers ''t1'' = 0" "startingLoad ?teachers ''t2'' = 5"
    by (simp_all add: startingLoad_def exampleTeacher_def)
  from post_run_load_bounded[of ?students ?teachers "constantScore 80" noOptions]
  obtain assignments where
    a: "generateAutoAssignment ?students ?teachers (constantScore 80) noOptions = Some assignments" and
    l: "length assignments \<le> length ?students" and
    own: "distinct (map teacher_id ?teachers) \<longrightarrow>
      (\<forall>teacher \<in> set ?teachers.
         teacher_currentLoad teacher + received assignments (teacher_id teacher) \<le>
           max (teacher_currentLoad teacher)
             (effectiveMaxLoad noOptions (real (length ?students) / real (length ?teachers))) \<and>
         (teacher_currentLoad teacher \<le>
            effectiveMaxLoad noOptions (real (length ?students) / real (length ?teachers)) \<longrightarrow>
          teacher_currentLoad teacher + received assignments (teacher_id teacher) \<le>
            effectiveMaxLoad noOptions (real (length ?students) / real (length ?teachers))) \<and>
         (effectiveMaxLoad noOptions (real (length ?students) / real (length ?teachers)) \<le>
            teacher_currentLoad teacher \<longrightarrow>
          received assignments (teacher_id teacher) = 0))" and
    general: "\<forall>teacher \<in> set ?teachers.
        postRunLoad ?teachers assignments (teacher_id teacher) \<le>
          max (startingLoad ?teachers (teacher_id teacher))
            (effectiveMaxLoad noOptions (real (length ?students) / real (length ?teachers)))"
    by blast
  from own d cap ids have
    "teacher_currentLoad (exampleTeacher ''t1'' 0) + received assignments ''t1'' \<le> 2"
    "received assignments ''t2'' = 0"
    by (simp_all del: distinct.simps)
  moreover from general cap ids start have
    "postRunLoad ?teachers assignments ''t1'' \<le> 2"
    "postRunLoad ?teachers assignments ''t2'' \<le> 5"
    by simp_all
  ultimately show ?thesis using d cap run a l by auto
qed

subsection \<open>Students that cannot be placed\<close>

text \<open>
  The threshold test of the source is the literal one when scores are not negative, and
  when the threshold is not 0.
\<close>

lemma belowThreshold_literal:
  assumes "(\<forall>t s a. 0 \<le> overall (scoreFn t s a)) \<or> minCompatibilityThreshold options \<noteq> Some 0"
  shows "belowThreshold options (scoreFn t s a) = scoreBelowThreshold options (scoreFn t s a)"
proof (cases "minCompatibilityThreshold options")
  case None
  then show ?thesis by (simp add: belowThreshold_def scoreBelowThreshold_def)
next
  case (Some thr)
  from assms have "thr \<noteq> 0 \<or> 0 \<le> overall (scoreFn t s a)"
    using Some by auto
  with Some show ?thesis
    by (auto simp: belowThreshold_def scoreBelowThreshold_def)
qed

lemma noTeacherEligible_literal:
  assumes "(\<forall>t s a. 0 \<le> overall (scoreFn t s a)) \<or> minCompatibilityThreshold options \<noteq> Some 0"
  shows "noTeacherEligible options averageLoad maxLoad scoreFn teacherLoads teachers student =
         noTeacherAvailable options averageLoad maxLoad scoreFn teacherLoads teachers student"
  by (auto simp: noTeacherEligible_def noTeacherAvailable_def list_all_iff
      belowThreshold_literal[OF assms] split: option.splits)

text \<open>The inner loop passes over a teacher that is at capacity or below the threshold.\<close>

lemma scanTeachers_ineligible:
  assumes "noTeacherEligible options averageLoad maxLoad scoreFn teacherLoads teachers student"
  shows "scanTeachers options averageLoad maxLoad scoreFn teacherLoads student teachers best = Some best"
  using assms
proof (induction teachers)
  case Nil
  then show ?case by simp
next
  case (Cons teacher rest)
  from Cons.prems obtain cur where
    cur: "teacherLoads (teacher_id teacher) = Some cur" and
    skip: "cur \<ge> maxLoad \<or>
           belowThreshold options
             (scoreFn ((teacher_analysisData teacher)\<lparr>currentLoad := cur\<rparr>)
                (student_analysisData student) averageLoad)" and
    rest: "noTeacherEligible options averageLoad maxLoad scoreFn teacherLoads rest student"
    by (auto simp: noTeacherEligible_def split: option.splits)
  with Cons.IH[OF rest] show ?case by (auto simp: Let_def)
qed

lemma assignStudents_ineligible:
  assumes "noTeacherEligible options averageLoad maxLoad scoreFn teacherLoads teachers student"
  shows "assignStudents options averageLoad maxLoad scoreFn teachers teacherLoads (student # rest) assignments =
         assignStudents options averageLoad maxLoad scoreFn teachers teacherLoads rest assignments"
  by (simp add: scanTeachers_ineligible[OF assms])

text \<open>A call with no students or no teachers returns the empty list at once.\<close>

lemma generateAutoAssignment_empty:
  "generateAutoAssignment [] teachers scoreFn options = Some []"
  "generateAutoAssignment students [] scoreFn options = Some []"
  by (simp_all add: generateAutoAssignment_def autoAssignmentRun_def)

lemma assignStudents_append:
  "assignStudents options averageLoad maxLoad scoreFn teachers teacherLoads (xs @ ys) assignments =
   (case assignStudents options averageLoad maxLoad scoreFn teachers teacherLoads xs assignments of
      None \<Rightarrow> None
    | Some (r, l) \<Rightarrow> assignStudents options averageLoad maxLoad scoreFn teachers l ys r)"
proof (induction xs arbitrary: teacherLoads assignments)
  case Nil
  then show ?case by simp
next
  case (Cons student rest)
  show ?case
  proof (cases "scanTeachers options averageLoad maxLoad scoreFn teacherLoads student teachers None")
    case None
    then show ?thesis by simp
  next
    case (Some b)
    show ?thesis
    proof (cases b)
      case None
      with Some Cons.IH[of teacherLoads assignments] show ?thesis by simp
    next
      case inner: (Some p)
      obtain i sc where p: "p = (i, sc)" by (cases p)
      show ?thesis
      proof (cases "i = []")
        case True
        with Some inner p Cons.IH[of teacherLoads assignments] show ?thesis by simp
      next
        case False
        show ?thesis
        proof (cases "teacherLoads i")
          case None
          with Some inner p False show ?thesis by simp
        next
          case cur: (Some load)
          let ?a = "\<lparr>studentId = student_id student, teacherId = i, score = sc\<rparr>"
          have l: "assignStudents options averageLoad maxLoad scoreFn teachers teacherLoads
                     ((student # rest) @ ys) assignments =
                   assignStudents options averageLoad maxLoad scoreFn teachers
                     (teacherLoads(i \<mapsto> load + 1)) (rest @ ys) (assignments @ [?a])"
            using Some inner p False cur by simp
          have r: "assignStudents options averageLoad maxLoad scoreFn teachers teacherLoads
                     (student # rest) assignments =
                   assignStudents options averageLoad maxLoad scoreFn teachers
                     (teacherLoads(i \<mapsto> load + 1)) rest (assignments @ [?a])"
            using Some inner p False cur by simp
          show ?thesis
            unfolding l r by (rule Cons.IH)
        qed
      qed
    qed
  qed
qed

lemma assignStudents_skip:
  assumes "assignStudents options averageLoad maxLoad scoreFn teachers teacherLoads before [] = Some (r, l)"
    and "noTeacherEligible options averageLoad maxLoad scoreFn l teachers student"
  shows "assignStudents options averageLoad maxLoad scoreFn teachers teacherLoads
           (before @ student # after) [] =
         assignStudents options averageLoad maxLoad scoreFn teachers teacherLoads
           (before @ after) []"
proof -
  have "assignStudents options averageLoad maxLoad scoreFn teachers l (student # after) r =
        assignStudents options averageLoad maxLoad scoreFn teachers l after r"
    using assms(2) by (rule assignStudents_ineligible)
  then show ?thesis
    by (simp only: assignStudents_append assms(1) option.case prod.case)
qed

lemma assignStudents_ids:
  assumes "assignStudents options averageLoad maxLoad scoreFn teachers teacherLoads students [] = Some (r, l')"
  shows "studentId ` set r \<subseteq> student_id ` set students"
proof
  fix x assume "x \<in> studentId ` set r"
  then have x: "x \<in> set (map studentId r)" by simp
  from assignStudents_subseq[OF assms] x
  obtain y where "y \<in> set (map student_id students)" "x = y"
    by (rule list_emb_set)
  then show "x \<in> student_id ` set students" by simp
qed

text \<open>
  Claim C9, as stated, at a threshold of 0 and a scoring function that returns -5: the
  only teacher has room, its score is below the threshold, so every teacher is at capacity
  or below the threshold for the student; the run places the student with that teacher.
\<close>

theorem negative_score_under_zero_threshold_is_placed:
  "effectiveMaxLoad (noOptions\<lparr>minCompatibilityThreshold := Some 0\<rparr>)
     (real (length [exampleStudent ''s1'']) / real (length [exampleTeacher ''t1'' 0])) = 2 \<and>
   overall (constantScore (- 5)
     ((teacher_analysisData (exampleTeacher ''t1'' 0))\<lparr>currentLoad := 0\<rparr>)
     (student_analysisData (exampleStudent ''s1'')) 1) = - 5 \<and>
   noTeacherAvailable (noOptions\<lparr>minCompatibilityThreshold := Some 0\<rparr>) 1 2 (constantScore (- 5))
     (seedLoads [exampleTeacher ''t1'' 0] Map.empty) [exampleTeacher ''t1'' 0] (exampleStudent ''s1'') \<and>
   map_option (map (\<lambda>a. (studentId a, teacherId a)))
     (generateAutoAssignment [exampleStudent ''s1''] [exampleTeacher ''t1'' 0] (constantScore (- 5))
        (noOptions\<lparr>minCompatibilityThreshold := Some 0\<rparr>)) =
   Some [(''s1'', ''t1'')]"
  by (simp add: engine_defs example_defs noTeacherAvailable_def scoreBelowThreshold_def)

text \<open>
  Claim C9, amended. A call with no students or with no teachers returns the empty list,
  and every call returns (no read of the load table misses, so nothing fails). A student
  for whom every teacher is at capacity or scores below a threshold that is supplied and
  is not 0 is passed over: the loop goes on with the remaining students, the assignments
  and the load table as they were; the call returns what the loop yields for the other
  students alone, and the id of the student is not in the result unless another student
  carries it. When the scores are not negative, or the threshold is not 0, every score
  below the threshold counts, as in the claim as stated.
\<close>

theorem unplaceable_student_is_omitted:
  "generateAutoAssignment [] teachers scoreFn options = Some [] \<and>
   generateAutoAssignment students [] scoreFn options = Some [] \<and>
   (\<exists>assignments. generateAutoAssignment students teachers scoreFn options = Some assignments) \<and>
   (noTeacherEligible options averageLoad maxLoad scoreFn teacherLoads teachers student \<longrightarrow>
    assignStudents options averageLoad maxLoad scoreFn teachers teacherLoads (student # rest) assignments =
    assignStudents options averageLoad maxLoad scoreFn teachers teacherLoads rest assignments) \<and>
   (teachers \<noteq> [] \<longrightarrow>
    avg = real (length (before @ student # after)) / real (length teachers) \<longrightarrow>
    cap = effectiveMaxLoad options avg \<longrightarrow>
    map_option snd
      (assignStudents options avg cap scoreFn teachers (seedLoads teachers Map.empty) before []) =
      Some loads \<longrightarrow>
    noTeacherEligible options avg cap scoreFn loads teachers student \<longrightarrow>
    (\<exists>result.
       generateAutoAssignment (before @ student # after) teachers scoreFn options = Some result \<and>
       map_option fst
         (assignStudents options avg cap scoreFn teachers (seedLoads teachers Map.empty)
            (before @ after) []) = Some result \<and>
       (student_id student \<notin> student_id ` set (before @ after) \<longrightarrow>
        student_id student \<notin> studentId ` set result))) \<and>
   (((\<forall>t s a. 0 \<le> overall (scoreFn t s a)) \<or> minCompatibilityThreshold options \<noteq> Some 0) \<longrightarrow>
    noTeacherEligible options averageLoad maxLoad scoreFn teacherLoads teachers student =
    noTeacherAvailable options averageLoad maxLoad scoreFn teacherLoads teachers student)"
proof (intro conjI impI)
  show "generateAutoAssignment [] teachers scoreFn options = Some []"
    by (rule generateAutoAssignment_empty)
  show "generateAutoAssignment students [] scoreFn options = Some []"
    by (rule generateAutoAssignment_empty)
  show "\<exists>assignments. generateAutoAssignment students teachers scoreFn options = Some assignments"
    by (rule generateAutoAssignment_total)
next
  assume "noTeacherEligible options averageLoad maxLoad scoreFn teacherLoads teachers student"
  then show "assignStudents options averageLoad maxLoad scoreFn teachers teacherLoads (student # rest) assignments =
    assignStudents options averageLoad maxLoad scoreFn teachers teacherLoads rest assignments"
    by (rule assignStudents_ineligible)
next
  assume teachers: "teachers \<noteq> []"
    and avg: "avg = real (length (before @ student # after)) / real (length teachers)"
    and cap: "cap = effectiveMaxLoad options avg"
    and run: "map_option snd
      (assignStudents options avg cap scoreFn teachers (seedLoads teachers Map.empty) before []) =
      Some loads"
    and none: "noTeacherEligible options avg cap scoreFn loads teachers student"
  from run obtain placed where
    before: "assignStudents options avg cap scoreFn teachers (seedLoads teachers Map.empty) before [] =
      Some (placed, loads)"
    by auto
  have "teacher_id ` set teachers \<subseteq> dom (seedLoads teachers Map.empty)"
    by (simp add: seedLoads_dom)
  from assignStudents_total[OF this]
  obtain result l' where
    others: "assignStudents options avg cap scoreFn teachers (seedLoads teachers Map.empty)
               (before @ after) [] = Some (result, l')"
    by force
  have "generateAutoAssignment (before @ student # after) teachers scoreFn options =
        map_option fst
          (assignStudents options avg cap scoreFn teachers (seedLoads teachers Map.empty)
             (before @ student # after) [])"
    using teachers by (simp add: generateAutoAssignment_def autoAssignmentRun_def Let_def avg cap)
  also have "assignStudents options avg cap scoreFn teachers (seedLoads teachers Map.empty)
             (before @ student # after) [] =
        assignStudents options avg cap scoreFn teachers (seedLoads teachers Map.empty)
             (before @ after) []"
    using before none by (rule assignStudents_skip)
  finally have gen: "generateAutoAssignment (before @ student # after) teachers scoreFn options =
      Some result"
    by (simp add: others)
  have "student_id student \<notin> student_id ` set (before @ after) \<longrightarrow>
        student_id student \<notin> studentId ` set result"
    using assignStudents_ids[OF others] by blast
  with gen others
  show "\<exists>result.
       generateAutoAssignment (before @ student # after) teachers scoreFn options = Some result \<and>
       map_option fst
         (assignStudents options avg cap scoreFn teachers (seedLoads teachers Map.empty)
            (before @ after) []) = Some result \<and>
       (student_id student \<notin> student_id ` set (before @ after) \<longrightarrow>
        student_id student \<notin> studentId ` set result)"
    by simp
next
  assume "(\<forall>t s a. 0 \<le> overall (scoreFn t s a)) \<or> minCompatibilityThreshold options \<noteq> Some 0"
  then show "noTeacherEligible options averageLoad maxLoad scoreFn teacherLoads teachers student =
    noTeacherAvailable options averageLoad maxLoad scoreFn teacherLoads teachers student"
    by (rule noTeacherEligible_literal)
qed

text \<open>
  Three students and one teacher at load 0, a cap of 5, a threshold of 75, and a score of
  80 minus 10 per student the teacher already has. The first student is placed at a score
  of 80; the teacher then scores 70, below the threshold, so the second student is passed
  over (and so is the third): the result is the first pairing alone.
\<close>

theorem unplaceable_student_is_omitted_witness:
  "map_option snd
     (assignStudents \<lparr>maxStudentsPerTeacher = Some 5, minCompatibilityThreshold = Some 75\<rparr> 3 5
        loadAwareScore [exampleTeacher ''t1'' 0] (seedLoads [exampleTeacher ''t1'' 0] Map.empty)
        [exampleStudent ''s1''] []) = Some [''t1'' \<mapsto> 1] \<and>
   noTeacherEligible \<lparr>maxStudentsPerTeacher = Some 5, minCompatibilityThreshold = Some 75\<rparr> 3 5
     loadAwareScore [''t1'' \<mapsto> 1] [exampleTeacher ''t1'' 0] (exampleStudent ''s2'') \<and>
   noTeacherAvailable \<lparr>maxStudentsPerTeacher = Some 5, minCompatibilityThreshold = Some 75\<rparr> 3 5
     loadAwareScore [''t1'' \<mapsto> 1] [exampleTeacher ''t1'' 0] (exampleStudent ''s2'') \<and>
   map_option (map (\<lambda>a. (studentId a, teacherId a, overall (score a))))
     (generateAutoAssignment ([exampleStudent ''s1''] @ exampleStudent ''s2'' # [exampleStudent ''s3''])
        [exampleTeacher ''t1'' 0] loadAwareScore
        \<lparr>maxStudentsPerTeacher = Some 5, minCompatibilityThreshold = Some 75\<rparr>) =
     Some [(''s1'', ''t1'', 80)] \<and>
   (\<exists>result.
      generateAutoAssignment ([exampleStudent ''s1''] @ exampleStudent ''s2'' # [exampleStudent ''s3''])
        [exampleTeacher ''t1'' 0] loadAwareScore
        \<lparr>maxStudentsPerTeacher = Some 5, minCompatibilityThreshold = Some 75\<rparr> = Some result \<and>
      map_option fst
        (assignStudents \<lparr>maxStudentsPerTeacher = Some 5, minCompatibilityThreshold = Some 75\<rparr> 3 5
           loadAwareScore [exampleTeacher ''t1'' 0] (seedLoads [exampleTeacher ''t1'' 0] Map.empty)
           ([exampleStudent ''s1''] @ [exampleStudent ''s3'']) []) = Some result \<and>
      student_id (exampleStudent ''s2'') \<notin> studentId ` set result)"
proof -
  let ?options = "\<lparr>maxStudentsPerTeacher = Some 5, minCompatibilityThreshold = Some 75\<rparr>"
  let ?teachers = "[exampleTeacher ''t1'' 0]"
  have 1: "?teachers \<noteq> []" by simp
  have 2: "(3::real) = real (length ([exampleStudent ''s1''] @ exampleStudent ''s2'' # [exampleStudent ''s3''])) /
             real (length ?teachers)"
    by simp
  have 3: "(5::int) = effectiveMaxLoad ?options 3"
    by (simp add: effectiveMaxLoad_def)
  have 4: "map_option snd
     (assignStudents ?options 3 5 loadAwareScore ?teachers (seedLoads ?teachers Map.empty)
        [exampleStudent ''s1''] []) = Some [''t1'' \<mapsto> 1]"
    by (simp add: belowThreshold_def improves_def Let_def loadAwareScore_def exampleTeacher_def
        exampleStudent_def)
  have 5: "noTeacherEligible ?options 3 5 loadAwareScore [''t1'' \<mapsto> 1] ?teachers (exampleStudent ''s2'')"
    by (simp add: noTeacherEligible_def belowThreshold_def loadAwareScore_def exampleTeacher_def
        exampleStudent_def)
  have 6: "student_id (exampleStudent ''s2'') \<notin>
           student_id ` set ([exampleStudent ''s1''] @ [exampleStudent ''s3''])"
    by (simp add: exampleStudent_def)
  have 7: "(\<forall>t s a. 0 \<le> overall (loadAwareScore t s a)) \<or>
           minCompatibilityThreshold ?options \<noteq> Some 0"
    by (simp add: loadAwareScore_def)
  have 8: "map_option (map (\<lambda>a. (studentId a, teacherId a, overall (score a))))
     (generateAutoAssignment ([exampleStudent ''s1''] @ exampleStudent ''s2'' # [exampleStudent ''s3''])
        ?teachers loadAwareScore ?options) = Some [(''s1'', ''t1'', 80)]"
    by (simp add: engine_defs loadAwareScore_def exampleTeacher_def exampleStudent_def)
  from unplaceable_student_is_omitted[where scoreFn = loadAwareScore and options = ?options
      and avg = 3 and cap = 5 and averageLoad = 3 and maxLoad = 5
      and teachers = ?teachers and teacherLoads = "[''t1'' \<mapsto> 1]"
      and student = "exampleStudent ''s2''" and before = "[exampleStudent ''s1'']"
      and after = "[exampleStudent ''s3'']" and loads = "[''t1'' \<mapsto> 1]"] 1 2 3 4 5 6 7
  have "(\<exists>result.
      generateAutoAssignment ([exampleStudent ''s1''] @ exampleStudent ''s2'' # [exampleStudent ''s3''])
        ?teachers loadAwareScore ?options = Some result \<and>
      map_option fst
        (assignStudents ?options 3 5 loadAwareScore ?teachers (seedLoads ?teachers Map.empty)
           ([exampleStudent ''s1''] @ [exampleStudent ''s3'']) []) = Some result \<and>
      student_id (exampleStudent ''s2'') \<notin> studentId ` set result)"
    and "noTeacherAvailable ?options 3 5 loadAwareScore [''t1'' \<mapsto> 1] ?teachers (exampleStudent ''s2'')"
    by blast+
  with 4 5 8 show ?thesis by blast
qed

subsection \<open>The greedy selection\<close>

lemma highest_exists:
  "cs \<noteq> [] \<Longrightarrow> \<exists>c \<in> set cs. list_all (\<lambda>d. overall (snd d) \<le> overall (snd c)) cs"
proof (induction cs)
  case Nil
  then show ?case by simp
next
  case (Cons a cs)
  show ?case
  proof (cases "cs = []")
    case True
    then show ?thesis by simp
  next
    case False
    from Cons.IH[OF this] obtain c where c: "c \<in> set cs"
      "list_all (\<lambda>d. overall (snd d) \<le> overall (snd c)) cs" by blast
    show ?thesis
    proof (cases "overall (snd a) \<le> overall (snd c)")
      case True
      with c show ?thesis by auto
    next
      case False
      with c have "list_all (\<lambda>d. overall (snd d) \<le> overall (snd a)) cs"
        by (auto simp: list_all_iff)
      then show ?thesis by auto
    qed
  qed
qed

lemma find_append:
  "List.find P (xs @ ys) = (case List.find P xs of None \<Rightarrow> List.find P ys | Some x \<Rightarrow> Some x)"
  by (induction xs) auto

lemma firstHighest_None: "firstHighest cs = None \<longleftrightarrow> cs = []"
proof
  assume "firstHighest cs = None"
  then have "\<not> (\<exists>c \<in> set cs. list_all (\<lambda>d. overall (snd d) \<le> overall (snd c)) cs)"
    unfolding firstHighest_def find_None_iff by blast
  with highest_exists[of cs] show "cs = []" by blast
next
  assume "cs = []"
  then show "firstHighest cs = None" by (simp add: firstHighest_def)
qed

lemma firstHighest_Some:
  "firstHighest cs = Some b \<Longrightarrow> b \<in> set cs \<and> (\<forall>d \<in> set cs. overall (snd d) \<le> overall (snd b))"
  by (auto simp: firstHighest_def find_Some_iff list_all_iff)

lemma firstHighest_snoc:
  "firstHighest (cs @ [c]) = (if improves (snd c) (firstHighest cs) then Some c else firstHighest cs)"
proof (cases "firstHighest cs")
  case None
  then have "cs = []" by (simp add: firstHighest_None)
  then show ?thesis by (simp add: firstHighest_def improves_def)
next
  case (Some b)
  note b = firstHighest_Some[OF Some]
  show ?thesis
  proof (cases "overall (snd c) > overall (snd b)")
    case True
    have "List.find (\<lambda>x. list_all (\<lambda>d. overall (snd d) \<le> overall (snd x)) (cs @ [c])) cs = None"
      using b True by (fastforce simp: find_None_iff)
    moreover have "list_all (\<lambda>d. overall (snd d) \<le> overall (snd c)) (cs @ [c])"
      using b True by (fastforce simp: list_all_iff)
    moreover have "improves (snd c) (Some b)"
      using True by (cases b) (simp add: improves_def)
    ultimately show ?thesis using Some
      by (simp add: firstHighest_def find_append)
  next
    case False
    have "List.find (\<lambda>x. list_all (\<lambda>d. overall (snd d) \<le> overall (snd x)) (cs @ [c])) cs =
          List.find (\<lambda>x. list_all (\<lambda>d. overall (snd d) \<le> overall (snd x)) cs) cs"
      using b False by (intro find_cong) (auto simp: list_all_iff)
    moreover have "\<not> improves (snd c) (Some b)"
      using False by (cases b) (simp add: improves_def)
    ultimately show ?thesis using Some
      by (simp add: firstHighest_def find_append)
  qed
qed

lemma scanTeachers_firstHighest:
  assumes nonneg: "(\<forall>t s a. 0 \<le> overall (scoreFn t s a)) \<or> minCompatibilityThreshold options \<noteq> Some 0"
    and loads: "\<And>teacher. teacher \<in> set teachers \<Longrightarrow>
                  teacherLoads (teacher_id teacher) = Some (load (teacher_id teacher))"
  shows "scanTeachers options averageLoad maxLoad scoreFn teacherLoads student teachers (firstHighest pre) =
         Some (firstHighest (pre @ eligibleTeachers options averageLoad maxLoad scoreFn load teachers student))"
  using loads
proof (induction teachers arbitrary: pre)
  case Nil
  then show ?case by (simp add: eligibleTeachers_def)
next
  case (Cons teacher rest)
  have cur: "teacherLoads (teacher_id teacher) = Some (load (teacher_id teacher))"
    using Cons.prems by simp
  have rest: "\<And>t. t \<in> set rest \<Longrightarrow> teacherLoads (teacher_id t) = Some (load (teacher_id t))"
    using Cons.prems by simp
  let ?sc = "scoreFn ((teacher_analysisData teacher)\<lparr>currentLoad := load (teacher_id teacher)\<rparr>)
               (student_analysisData student) averageLoad"
  have below: "belowThreshold options ?sc = scoreBelowThreshold options ?sc"
    using nonneg by (rule belowThreshold_literal)
  show ?case
  proof (cases "load (teacher_id teacher) < maxLoad \<and> \<not> scoreBelowThreshold options ?sc")
    case False
    then have "eligibleTeachers options averageLoad maxLoad scoreFn load (teacher # rest) student =
               eligibleTeachers options averageLoad maxLoad scoreFn load rest student"
      by (auto simp: eligibleTeachers_def)
    with False cur below Cons.IH[OF rest, of pre] show ?thesis
      by (auto simp: Let_def)
  next
    case True
    then have el: "eligibleTeachers options averageLoad maxLoad scoreFn load (teacher # rest) student =
               (teacher_id teacher, ?sc) # eligibleTeachers options averageLoad maxLoad scoreFn load rest student"
      by (auto simp: eligibleTeachers_def)
    have step: "scanTeachers options averageLoad maxLoad scoreFn teacherLoads student (teacher # rest) (firstHighest pre) =
          scanTeachers options averageLoad maxLoad scoreFn teacherLoads student rest
            (firstHighest (pre @ [(teacher_id teacher, ?sc)]))"
      using True cur below by (simp add: Let_def firstHighest_snoc)
    show ?thesis
      unfolding step el using Cons.IH[OF rest, of "pre @ [(teacher_id teacher, ?sc)]"] by simp
  qed
qed


lemma assignStudents_greedy:
  assumes nonneg: "(\<forall>t s a. 0 \<le> overall (scoreFn t s a)) \<or> minCompatibilityThreshold options \<noteq> Some 0"
    and ids: "\<And>teacher. teacher \<in> set teachers \<Longrightarrow> teacher_id teacher \<noteq> []"
    and loads: "\<And>teacher. teacher \<in> set teachers \<Longrightarrow>
                  teacherLoads (teacher_id teacher) = Some (load (teacher_id teacher))"
  shows "\<exists>l'. assignStudents options averageLoad maxLoad scoreFn teachers teacherLoads students [] =
           Some (greedyAssignment options averageLoad maxLoad scoreFn teachers load students, l')"
  using loads
proof (induction students arbitrary: teacherLoads load)
  case Nil
  then show ?case by simp
next
  case (Cons student rest)
  let ?el = "eligibleTeachers options averageLoad maxLoad scoreFn load teachers student"
  have "scanTeachers options averageLoad maxLoad scoreFn teacherLoads student teachers (firstHighest []) =
        Some (firstHighest ([] @ ?el))"
    by (rule scanTeachers_firstHighest) (simp_all add: nonneg Cons.prems)
  then have scan: "scanTeachers options averageLoad maxLoad scoreFn teacherLoads student teachers None =
              Some (firstHighest ?el)"
    by (simp add: firstHighest_def)
  show ?case
  proof (cases "firstHighest ?el")
    case None
    with scan Cons.IH[of teacherLoads load] Cons.prems show ?thesis by simp
  next
    case (Some p)
    obtain i sc where p: "p = (i, sc)" by (cases p)
    from firstHighest_Some[OF Some] p have "(i, sc) \<in> set ?el" by simp
    then obtain teacher where t: "teacher \<in> set teachers" "teacher_id teacher = i"
      by (auto simp: eligibleTeachers_def)
    with ids Cons.prems have i: "i \<noteq> []" "teacherLoads i = Some (load i)" by auto
    let ?a = "\<lparr>studentId = student_id student, teacherId = i, score = sc\<rparr>"
    have "\<And>t. t \<in> set teachers \<Longrightarrow>
            (teacherLoads(i \<mapsto> load i + 1)) (teacher_id t) = Some ((load(i := load i + 1)) (teacher_id t))"
      using Cons.prems by simp
    from Cons.IH[of "teacherLoads(i \<mapsto> load i + 1)" "load(i := load i + 1)"] this
    obtain l' where run: "assignStudents options averageLoad maxLoad scoreFn teachers
        (teacherLoads(i \<mapsto> load i + 1)) rest [] =
        Some (greedyAssignment options averageLoad maxLoad scoreFn teachers (load(i := load i + 1)) rest, l')"
      by blast
    have "assignStudents options averageLoad maxLoad scoreFn teachers teacherLoads (student # rest) [] =
          assignStudents options averageLoad maxLoad scoreFn teachers
            (teacherLoads(i \<mapsto> load i + 1)) rest [?a]"
      using scan Some p i by simp
    also have "\<dots> = Some (?a # greedyAssignment options averageLoad maxLoad scoreFn teachers
                                (load(i := load i + 1)) rest, l')"
      by (subst assignStudents_acc) (simp add: run)
    finally show ?thesis using Some p by simp
  qed
qed


lemma greedyAssignment_no_teachers:
  "greedyAssignment options averageLoad maxLoad scoreFn [] load students = []"
  by (induction students) (simp_all add: eligibleTeachers_def firstHighest_def)

text \<open>
  For teachers whose ids are not empty, and scores that are not negative or a threshold
  that is not 0, the run is the greedy selection of the specification.
\<close>

lemma generateAutoAssignment_greedy:
  assumes "\<forall>teacher \<in> set teachers. teacher_id teacher \<noteq> []"
    and "(\<forall>t s a. 0 \<le> overall (scoreFn t s a)) \<or> minCompatibilityThreshold options \<noteq> Some 0"
  shows "generateAutoAssignment students teachers scoreFn options =
         Some (greedyAssignment options (real (length students) / real (length teachers))
                 (effectiveMaxLoad options (real (length students) / real (length teachers)))
                 scoreFn teachers (startingLoad teachers) students)"
proof (cases "teachers = [] \<or> students = []")
  case True
  then show ?thesis
    by (auto simp: generateAutoAssignment_def autoAssignmentRun_def greedyAssignment_no_teachers)
next
  case False
  have "\<exists>l'. assignStudents options (real (length students) / real (length teachers))
          (effectiveMaxLoad options (real (length students) / real (length teachers)))
          scoreFn teachers (seedLoads teachers Map.empty) students [] =
        Some (greedyAssignment options (real (length students) / real (length teachers))
                 (effectiveMaxLoad options (real (length students) / real (length teachers)))
                 scoreFn teachers (startingLoad teachers) students, l')"
    by (rule assignStudents_greedy) (use assms in \<open>simp_all add: seedLoads_startingLoad\<close>)
  with False show ?thesis
    by (auto simp: generateAutoAssignment_def autoAssignmentRun_def Let_def)
qed

lemma generateAutoAssignment_greedy_example:
  "map_option (map (\<lambda>a. (studentId a, teacherId a, overall (score a))))
     (generateAutoAssignment [exampleStudent ''s1'', exampleStudent ''s2'', exampleStudent ''s3'']
        [exampleTeacher ''t1'' 0, exampleTeacher ''t2'' 0] loadAwareScore noOptions) =
   Some [(''s1'', ''t1'', 80), (''s2'', ''t2'', 80), (''s3'', ''t1'', 70)]"
proof -
  have 1: "\<forall>teacher \<in> set [exampleTeacher ''t1'' 0, exampleTeacher ''t2'' 0]. teacher_id teacher \<noteq> []"
    by (simp add: exampleTeacher_def)
  have 2: "(\<forall>t s a. 0 \<le> overall (loadAwareScore t s a)) \<or>
           minCompatibilityThreshold noOptions \<noteq> Some 0"
    by (simp add: loadAwareScore_def)
  show ?thesis
    unfolding generateAutoAssignment_greedy[OF 1 2]
    by (simp add: eligibleTeachers_def firstHighest_def scoreBelowThreshold_def startingLoad_def
        effectiveMaxLoad_def example_defs loadAwareScore_def)
qed

text \<open>
  Claim C3, at a teacher whose id is the empty string. The specification's selection pairs
  the student with that teacher; the run selects the teacher as well, but the test
  \<open>if (bestTeacherId && bestScore)\<close> reads the empty id as no teacher, and nothing is
  committed.
\<close>

theorem empty_id_teacher_is_dropped:
  "generateAutoAssignment [exampleStudent ''s1''] [exampleTeacher [] 0] (constantScore 80) noOptions =
     Some [] \<and>
   map (\<lambda>a. (studentId a, teacherId a, overall (score a)))
     (greedyAssignment noOptions
        (real (length [exampleStudent ''s1'']) / real (length [exampleTeacher [] 0]))
        (effectiveMaxLoad noOptions
           (real (length [exampleStudent ''s1'']) / real (length [exampleTeacher [] 0])))
        (constantScore 80) [exampleTeacher [] 0] (startingLoad [exampleTeacher [] 0])
        [exampleStudent ''s1'']) =
     [(''s1'', [], 80)]"
  by (simp add: engine_defs example_defs eligibleTeachers_def firstHighest_def
      scoreBelowThreshold_def startingLoad_def)

subsection \<open>A threshold of zero\<close>

lemma scanTeachers_cong_options:
  "(\<And>sc. belowThreshold options sc = belowThreshold options' sc) \<Longrightarrow>
   scanTeachers options averageLoad maxLoad scoreFn teacherLoads student teachers best =
   scanTeachers options' averageLoad maxLoad scoreFn teacherLoads student teachers best"
  by (induction teachers arbitrary: best) (simp_all add: Let_def split: option.split)

lemma assignStudents_cong_options:
  "(\<And>sc. belowThreshold options sc = belowThreshold options' sc) \<Longrightarrow>
   assignStudents options averageLoad maxLoad scoreFn teachers teacherLoads students assignments =
   assignStudents options' averageLoad maxLoad scoreFn teachers teacherLoads students assignments"
proof (induction students arbitrary: teacherLoads assignments)
  case Nil
  then show ?case by simp
next
  case (Cons student rest)
  have scan: "scanTeachers options averageLoad maxLoad scoreFn teacherLoads student teachers None =
        scanTeachers options' averageLoad maxLoad scoreFn teacherLoads student teachers None"
    using Cons.prems by (rule scanTeachers_cong_options)
  show ?case
    by (simp only: assignStudents.simps scan Cons.IH[OF Cons.prems])
qed

text \<open>
  Claim C10. A call with \<open>minCompatibilityThreshold\<close> set to \<open>0\<close> returns, and returns
  exactly the assignments of the call that differs only in having no threshold, for all
  students, teachers, scoring functions and load caps.
\<close>

theorem threshold_zero_is_unset:
  "generateAutoAssignment students teachers scoreFn (options\<lparr>minCompatibilityThreshold := Some 0\<rparr>) =
     generateAutoAssignment students teachers scoreFn (options\<lparr>minCompatibilityThreshold := None\<rparr>) \<and>
   (\<exists>assignments.
      generateAutoAssignment students teachers scoreFn (options\<lparr>minCompatibilityThreshold := Some 0\<rparr>) =
        Some assignments)"
proof -
  have below: "\<And>sc. belowThreshold (options\<lparr>minCompatibilityThreshold := Some 0\<rparr>) sc =
      belowThreshold (options\<lparr>minCompatibilityThreshold := None\<rparr>) sc"
    by (simp add: belowThreshold_def)
  have cap: "\<And>a. effectiveMaxLoad (options\<lparr>minCompatibilityThreshold := Some 0\<rparr>) a =
      effectiveMaxLoad (options\<lparr>minCompatibilityThreshold := None\<rparr>) a"
    by (simp add: effectiveMaxLoad_def)
  have "autoAssignmentRun students teachers scoreFn (options\<lparr>minCompatibilityThreshold := Some 0\<rparr>) =
        autoAssignmentRun students teachers scoreFn (options\<lparr>minCompatibilityThreshold := None\<rparr>)"
    unfolding autoAssignmentRun_def Let_def cap
    using assignStudents_cong_options[OF below] by simp
  then show ?thesis
    using generateAutoAssignment_total[of students teachers scoreFn "options\<lparr>minCompatibilityThreshold := Some 0\<rparr>"]
    by (simp add: generateAutoAssignment_def)
qed

section \<open>Properties of the fairness auditor\<close>

lemma foldl_plus_sum_list:
  "foldl (\<lambda>sum c. sum + f c) a xs = a + sum_list (map f xs)" for a :: real
  by (induction xs arbitrary: a) simp_all

lemma countTeacher_keys:
  "map fst (countTeacher t m) = (if t \<in> fst ` set m then map fst m else map fst m @ [t])"
  by (induction t m rule: countTeacher.induct) auto

lemma countTeacher_lookup:
  "map_of (countTeacher t m) = (map_of m)(t \<mapsto> (case map_of m t of None \<Rightarrow> 1 | Some c \<Rightarrow> c + 1))"
  by (induction t m rule: countTeacher.induct) (auto simp: fun_eq_iff)

lemma tally_fold:
  "distinct (map fst m) \<Longrightarrow>
   distinct (map fst (foldl (\<lambda>tc a. countTeacher (assignment_teacherId a) tc) m as)) \<and>
   set (map fst (foldl (\<lambda>tc a. countTeacher (assignment_teacherId a) tc) m as)) =
     fst ` set m \<union> assignedTeachers as \<and>
   (\<forall>t. countIn (foldl (\<lambda>tc a. countTeacher (assignment_teacherId a) tc) m as) t =
        countIn m t + assignmentsOf as t)"
proof (induction as arbitrary: m)
  case Nil
  then show ?case by (simp add: assignedTeachers_def assignmentsOf_def)
next
  case (Cons a as)
  let ?m = "countTeacher (assignment_teacherId a) m"
  have d: "distinct (map fst ?m)"
    using Cons.prems by (auto simp: countTeacher_keys)
  have "set (map fst ?m) = insert (assignment_teacherId a) (set (map fst m))"
    unfolding countTeacher_keys by auto
  then have k: "fst ` set ?m = insert (assignment_teacherId a) (fst ` set m)"
    by simp
  have c: "countIn ?m t = countIn m t + (if t = assignment_teacherId a then 1 else 0)" for t
    by (simp add: countIn_def countTeacher_lookup split: option.splits)
  note ih = Cons.IH[OF d]
  have 1: "distinct (map fst (foldl (\<lambda>tc a. countTeacher (assignment_teacherId a) tc) m (a # as)))"
    using ih by simp
  have 2: "set (map fst (foldl (\<lambda>tc a. countTeacher (assignment_teacherId a) tc) m (a # as))) =
     fst ` set m \<union> assignedTeachers (a # as)"
    using ih k by (simp add: assignedTeachers_def)
  have 3: "countIn (foldl (\<lambda>tc a. countTeacher (assignment_teacherId a) tc) m (a # as)) t =
        countIn m t + assignmentsOf (a # as) t" for t
    using ih c[of t] by (simp add: assignmentsOf_def)
  from 1 2 3 show ?case by blast
qed


lemma tallyTeachers_props:
  "distinct (map fst (tallyTeachers as))"
  "set (map fst (tallyTeachers as)) = assignedTeachers as"
  "countIn (tallyTeachers as) t = assignmentsOf as t"
  using tally_fold[of "[]" as] by (simp_all add: tallyTeachers_def countIn_def)

lemma tallyTeachers_counts:
  "map (\<lambda>(k, c). real c) (tallyTeachers as) =
   map (\<lambda>t. real (assignmentsOf as t)) (map fst (tallyTeachers as))"
proof -
  have "c = assignmentsOf as k" if "(k, c) \<in> set (tallyTeachers as)" for k c
  proof -
    from that tallyTeachers_props(1)[of as] have "map_of (tallyTeachers as) k = Some c"
      by simp
    with tallyTeachers_props(3)[of as k] show ?thesis by (simp add: countIn_def)
  qed
  then show ?thesis by auto
qed

lemma sum_over_tally:
  "sum_list (map g (map (\<lambda>(k, c). real c) (tallyTeachers as))) =
   (\<Sum>t \<in> assignedTeachers as. g (real (assignmentsOf as t)))"
proof -
  have "sum_list (map g (map (\<lambda>(k, c). real c) (tallyTeachers as))) =
        sum_list (map (\<lambda>t. g (real (assignmentsOf as t))) (map fst (tallyTeachers as)))"
    unfolding tallyTeachers_counts by (simp add: comp_def)
  also have "\<dots> = (\<Sum>t \<in> set (map fst (tallyTeachers as)). g (real (assignmentsOf as t)))"
    by (rule sum_list_distinct_conv_sum_set) (rule tallyTeachers_props)
  finally show ?thesis by (simp only: tallyTeachers_props)
qed

lemma length_tally: "length (tallyTeachers as) = card (assignedTeachers as)"
  using distinct_card[OF tallyTeachers_props(1)[of as]] tallyTeachers_props(2)[of as]
  by simp

lemma calculateDistributionBalance_spec:
  "calculateDistributionBalance as = balanceOfCounts as"
proof (cases "as = []")
  case True
  then show ?thesis
    by (simp add: calculateDistributionBalance_def balanceOfCounts_def meanCount_def
        assignedTeachers_def)
next
  case False
  let ?counts = "map (\<lambda>(k, c). real c) (tallyTeachers as)"
  from False have "assignedTeachers as \<noteq> {}" by (simp add: assignedTeachers_def)
  then have ne: "?counts \<noteq> []"
    using tallyTeachers_props(2)[of as] by auto
  have len: "real (length ?counts) = real (card (assignedTeachers as))"
    by (simp add: length_tally)
  have mean: "foldl (\<lambda>sum c. sum + c) 0 ?counts / real (length ?counts) = meanCount as"
    unfolding foldl_plus_sum_list[of "\<lambda>c. c", simplified] len meanCount_def
    using sum_over_tally[of "\<lambda>c. c" as] by simp
  have var: "sqrt (foldl (\<lambda>sum c. sum + (c - meanCount as)\<^sup>2) 0 ?counts / real (length ?counts)) =
             stdDevCount as"
    unfolding foldl_plus_sum_list len stdDevCount_def
    using sum_over_tally[of "\<lambda>c. (c - meanCount as)\<^sup>2" as] by simp
  have swap: "min 1 (max 0 x) = max 0 (min 1 x)" for x :: real
    by (simp add: min_def max_def)
  have "calculateDistributionBalance as =
        (if meanCount as = 0 then 1
         else min 1 (max 0 (1 - stdDevCount as / meanCount as)))"
    by (simp only: calculateDistributionBalance_def Let_def False ne if_False mean var)
  then show ?thesis
    by (simp only: balanceOfCounts_def swap)
qed

lemma balanceOfCounts_equal:
  assumes "\<forall>t \<in> assignedTeachers as. \<forall>u \<in> assignedTeachers as. assignmentsOf as t = assignmentsOf as u"
  shows "balanceOfCounts as = 1"
proof (cases "meanCount as = 0")
  case True
  then show ?thesis by (simp add: balanceOfCounts_def)
next
  case False
  then have ne: "assignedTeachers as \<noteq> {}"
    by (auto simp: meanCount_def)
  then obtain t0 where t0: "t0 \<in> assignedTeachers as" by blast
  have fin: "finite (assignedTeachers as)" by (simp add: assignedTeachers_def)
  have eq: "real (assignmentsOf as t) = real (assignmentsOf as t0)" if "t \<in> assignedTeachers as" for t
  proof -
    from assms that t0 have "assignmentsOf as t = assignmentsOf as t0" by blast
    then show ?thesis by (rule arg_cong)
  qed
  have card: "real (card (assignedTeachers as)) \<noteq> 0"
    using ne fin by simp
  have "(\<Sum>t \<in> assignedTeachers as. real (assignmentsOf as t)) =
        (\<Sum>t \<in> assignedTeachers as. real (assignmentsOf as t0))"
    by (rule sum.cong) (simp_all add: eq)
  then have mean: "meanCount as = real (assignmentsOf as t0)"
    using card by (simp add: meanCount_def)
  have "(\<Sum>t \<in> assignedTeachers as. (real (assignmentsOf as t) - meanCount as)\<^sup>2) =
        (\<Sum>t \<in> assignedTeachers as. 0)"
    by (rule sum.cong) (simp_all add: eq mean)
  then have "stdDevCount as = 0" by (simp add: stdDevCount_def)
  with False show ?thesis by (simp add: balanceOfCounts_def)
qed


text \<open>
  Claim C8. \<open>calculateDistributionBalance\<close> returns 1 for the empty list, returns 1
  whenever all teachers that have assignments have equally many, and in general returns
  \<open>max(0, min(1, 1 - stdDev / mean))\<close> of the per-teacher assignment counts, a zero mean
  giving 1.
\<close>

theorem distribution_balance:
  "calculateDistributionBalance [] = 1 \<and>
   ((\<forall>t \<in> assignedTeachers as. \<forall>u \<in> assignedTeachers as.
       assignmentsOf as t = assignmentsOf as u) \<longrightarrow>
    calculateDistributionBalance as = 1) \<and>
   calculateDistributionBalance as =
     (if meanCount as = 0 then 1
      else max 0 (min 1 (1 - stdDevCount as / meanCount as)))"
proof (intro conjI impI)
  show "calculateDistributionBalance [] = 1"
    by (simp add: calculateDistributionBalance_def)
next
  assume "\<forall>t \<in> assignedTeachers as. \<forall>u \<in> assignedTeachers as.
       assignmentsOf as t = assignmentsOf as u"
  then have "balanceOfCounts as = 1" by (rule balanceOfCounts_equal)
  then show "calculateDistributionBalance as = 1"
    by (simp only: calculateDistributionBalance_spec)
next
  show "calculateDistributionBalance as =
     (if meanCount as = 0 then 1
      else max 0 (min 1 (1 - stdDevCount as / meanCount as)))"
    by (simp only: calculateDistributionBalance_spec balanceOfCounts_def)
qed

theorem distribution_balance_witness:
  "assignedTeachers balancedAssignments = {''t1'', ''t2'', ''t3''} \<and>
   assignmentsOf balancedAssignments ''t1'' = 4 \<and>
   assignmentsOf balancedAssignments ''t2'' = 4 \<and>
   assignmentsOf balancedAssignments ''t3'' = 4 \<and>
   calculateDistributionBalance balancedAssignments = 1"
proof -
  have t: "assignedTeachers balancedAssignments = {''t1'', ''t2'', ''t3''}"
    by (auto simp: assignedTeachers_def balancedAssignments_def exampleAssignment_def)
  have c: "assignmentsOf balancedAssignments ''t1'' = 4"
    "assignmentsOf balancedAssignments ''t2'' = 4"
    "assignmentsOf balancedAssignments ''t3'' = 4"
    by (simp_all add: assignmentsOf_def balancedAssignments_def exampleAssignment_def)
  have "\<forall>t \<in> assignedTeachers balancedAssignments. \<forall>u \<in> assignedTeachers balancedAssignments.
       assignmentsOf balancedAssignments t = assignmentsOf balancedAssignments u"
    unfolding t using c by simp
  with distribution_balance[of balancedAssignments]
  have "calculateDistributionBalance balancedAssignments = 1" by blast
  with t c show ?thesis by simp
qed

section \<open>Properties of the composition analyzer\<close>

subsection \<open>The Shannon index\<close>

lemma calculateShannonDiversity_zero_total:
  "calculateShannonDiversity counts (Finite 0) = Finite 0"
  by (simp add: calculateShannonDiversity_def)

text \<open>With two categories or more the index is a finite value in \<open>[0,100]\<close>.\<close>

lemma shannon_fold_finite:
  assumes "\<forall>c \<in> set counts. \<exists>x. c = Finite x \<and> 0 \<le> x" and "0 < t"
  shows "\<exists>s. foldl (\<lambda>acc count.
                  if count = Finite 0 then acc
                  else let p = num_div count (Finite t)
                       in num_add acc (num_mul p (num_log p)))
            (Finite a) counts = Finite s"
  using assms(1)
proof (induction counts arbitrary: a)
  case Nil
  then show ?case by simp
next
  case (Cons c counts)
  from Cons.prems obtain x where x: "c = Finite x" "0 \<le> x" by auto
  show ?case
  proof (cases "x = 0")
    case True
    with x Cons show ?thesis by simp
  next
    case False
    with x \<open>0 < t\<close> have "0 < x / t" by simp
    then have "(let p = num_div c (Finite t) in num_add (Finite a) (num_mul p (num_log p))) =
          Finite (a + x / t * ln (x / t))"
      using x \<open>0 < t\<close> by (simp add: Let_def)
    with False x Cons.IH[of "a + x / t * ln (x / t)"] Cons.prems show ?thesis by simp
  qed
qed

lemma calculateShannonDiversity_range:
  assumes "2 \<le> length counts" and "\<forall>c \<in> set counts. \<exists>x. c = Finite x \<and> 0 \<le> x" and "0 < t"
  shows "\<exists>r. calculateShannonDiversity counts (Finite t) = Finite r \<and> 0 \<le> r \<and> r \<le> 100"
proof -
  from shannon_fold_finite[OF assms(2,3), of 0] obtain s where
    s: "foldl (\<lambda>acc count.
                  if count = Finite 0 then acc
                  else let p = num_div count (Finite t)
                       in num_add acc (num_mul p (num_log p)))
            (Finite 0) counts = Finite s" by blast
  from assms(1) have "1 < real (length counts)" by simp
  then have "ln (real (length counts)) > 0" by (rule ln_gt_zero)
  then have "calculateShannonDiversity counts (Finite t) =
        Finite (min (max (- s / ln (real (length counts)) * 100) 0) 100)"
    using assms(1,3) by (simp add: calculateShannonDiversity_def s Let_def)
  then show ?thesis by simp
qed


text \<open>
  A single category that holds less than the total: the division by \<open>Math.log(1) = 0\<close>
  gives \<open>Infinity\<close>, which the clamp turns into 100.
\<close>

lemma calculateShannonDiversity_single_partial:
  "calculateShannonDiversity [Finite 3] (Finite 5) = Finite 100"
  by (simp add: calculateShannonDiversity_def)

text \<open>
  Claim C1, at a single category that holds all the mass (counts \<open>[4]\<close>, total \<open>4\<close>):
  \<open>p = 1\<close>, the sum is \<open>0\<close>, the divisor \<open>Math.log(1)\<close> is \<open>0\<close>, and \<open>0 / 0\<close> is
  \<open>NaN\<close>, which \<open>Math.max\<close> and \<open>Math.min\<close> pass on. A roster of four teachers with one
  type code reaches this case: its \<open>mbtiDiversity\<close> is \<open>NaN\<close>.
\<close>

theorem single_category_is_NaN:
  "calculateShannonDiversity [Finite 4] (Finite 4) = NaN \<and>
   typeCounts (mbtiDistribution (composition (analyzeTeamComposition 0 0 ''team'' sameTypeRoster))) =
     [(''INTJ'', 4)] \<and>
   mbtiDiversity (diversityScore (analyzeTeamComposition 0 0 ''team'' sameTypeRoster)) = NaN"
  by (simp add: analyzeTeamComposition_def calculateDiversityScore_def analyzeMBTIDistribution_def
      tallyMbti_def emptyMbtiTally_def rosterTeacher_def sameTypeRoster_def Let_def
      countsAsNumbers_def calculateShannonDiversity_def)

subsection \<open>Axis ratios\<close>

lemma typeCodes_Cons:
  "typeCodes (t # ts) =
     (case mbtiType t of None \<Rightarrow> typeCodes ts
      | Some m \<Rightarrow> if m = [] then typeCodes ts else m # typeCodes ts)"
  by (simp add: typeCodes_def List.map_filter_simps split: option.split)

lemma letterCount_Nil: "letterCount c [] = 0"
  by (simp add: letterCount_def typeCodes_def List.map_filter_simps)

lemma letterCount_Cons:
  "letterCount c (t # ts) =
     (case mbtiType t of None \<Rightarrow> letterCount c ts
      | Some m \<Rightarrow> if m = [] then letterCount c ts
                  else (if includesChar (toUpperCase m) c then 1 else 0) + letterCount c ts)"
  by (simp add: letterCount_def typeCodes_Cons split: option.split)

lemma foldl_tallyMbti:
  "tally_e (foldl tallyMbti st ts) = tally_e st + letterCount CHR ''E'' ts \<and>
   tally_i (foldl tallyMbti st ts) = tally_i st + letterCount CHR ''I'' ts \<and>
   tally_s (foldl tallyMbti st ts) = tally_s st + letterCount CHR ''S'' ts \<and>
   tally_n (foldl tallyMbti st ts) = tally_n st + letterCount CHR ''N'' ts \<and>
   tally_t (foldl tallyMbti st ts) = tally_t st + letterCount CHR ''T'' ts \<and>
   tally_f (foldl tallyMbti st ts) = tally_f st + letterCount CHR ''F'' ts \<and>
   tally_j (foldl tallyMbti st ts) = tally_j st + letterCount CHR ''J'' ts \<and>
   tally_p (foldl tallyMbti st ts) = tally_p st + letterCount CHR ''P'' ts"
proof (induction ts arbitrary: st)
  case Nil
  then show ?case by (simp add: letterCount_Nil)
next
  case (Cons t ts)
  show ?case
  proof (cases "mbtiType t")
    case None
    then have "tallyMbti st t = st" by (simp add: tallyMbti_def)
    with None Cons.IH[of st] show ?thesis by (simp add: letterCount_Cons)
  next
    case (Some m)
    show ?thesis
    proof (cases "m = []")
      case True
      with Some have "tallyMbti st t = st" by (simp add: tallyMbti_def)
      with Some True Cons.IH[of st] show ?thesis by (simp add: letterCount_Cons)
    next
      case False
      with Some Cons.IH[of "tallyMbti st t"] show ?thesis
        by (simp add: letterCount_Cons tallyMbti_def Let_def)
    qed
  qed
qed

lemma axisRatios_letterCount:
  "axisRatios (analyzeMBTIDistribution ts) =
     \<lparr>axis_E = ratioOf (letterCount CHR ''E'' ts) (letterCount CHR ''E'' ts + letterCount CHR ''I'' ts),
      axis_I = ratioOf (letterCount CHR ''I'' ts) (letterCount CHR ''E'' ts + letterCount CHR ''I'' ts),
      axis_S = ratioOf (letterCount CHR ''S'' ts) (letterCount CHR ''E'' ts + letterCount CHR ''I'' ts),
      axis_N = ratioOf (letterCount CHR ''N'' ts) (letterCount CHR ''E'' ts + letterCount CHR ''I'' ts),
      axis_T = ratioOf (letterCount CHR ''T'' ts) (letterCount CHR ''E'' ts + letterCount CHR ''I'' ts),
      axis_F = ratioOf (letterCount CHR ''F'' ts) (letterCount CHR ''E'' ts + letterCount CHR ''I'' ts),
      axis_J = ratioOf (letterCount CHR ''J'' ts) (letterCount CHR ''E'' ts + letterCount CHR ''I'' ts),
      axis_P = ratioOf (letterCount CHR ''P'' ts) (letterCount CHR ''E'' ts + letterCount CHR ''I'' ts)\<rparr>"
  using foldl_tallyMbti[of emptyMbtiTally ts]
  by (simp add: analyzeMBTIDistribution_def Let_def emptyMbtiTally_def)

lemma pair_counts:
  assumes "\<forall>m \<in> set codes. includesChar (toUpperCase m) a \<noteq> includesChar (toUpperCase m) b"
  shows "length (filter (\<lambda>m. includesChar (toUpperCase m) a) codes) +
         length (filter (\<lambda>m. includesChar (toUpperCase m) b) codes) = length codes"
  using assms by (induction codes) auto

lemma ratioOf_ownAxis: "ratioOf x (x + y) = ownAxisRatio x y"
  by (simp add: ratioOf_def ownAxisRatio_def)


lemma toUpperCase_examples:
  "toUpperCase ''ENTJ'' = ''ENTJ''" "toUpperCase ''isfp'' = ''ISFP''" "toUpperCase ''XSTJ'' = ''XSTJ''"
  by (simp_all add: toUpperCase.simps upperOfTwoBytes_def upperOfThreeBytes_def toUpperChar_def)

text \<open>
  A dotless i (U+0131) counts as I, a sharp s (U+00DF) as S, the ligature fi (U+FB01) as
  F and I; a Korean syllable stays as it is.
\<close>

lemma toUpperCase_beyond_ASCII:
  "toUpperCase [CHR 0xC4, CHR 0xB1, CHR ''n'', CHR ''t'', CHR ''j''] = ''INTJ''"
  "toUpperCase [CHR ''e'', CHR 0xC3, CHR 0x9F] = ''ESS''"
  "toUpperCase [CHR 0xEF, CHR 0xAC, CHR 0x81] = ''FI''"
  "toUpperCase woodName = woodName"
  by (simp_all add: toUpperCase.simps upperOfTwoBytes_def upperOfThreeBytes_def toUpperChar_def
      woodName_def)

lemma typeCodes_examples:
  "typeCodes validRoster = [''ENTJ'', ''isfp'']" "typeCodes mixedRoster = [''ENTJ'', ''XSTJ'']"
  by (simp_all add: typeCodes_Cons typeCodes_def List.map_filter_simps validRoster_def mixedRoster_def rosterTeacher_def)

lemma letterCount_examples:
  "letterCount CHR ''E'' mixedRoster = 1" "letterCount CHR ''I'' mixedRoster = 0"
  "letterCount CHR ''S'' mixedRoster = 1" "letterCount CHR ''N'' mixedRoster = 1"
  "letterCount CHR ''T'' mixedRoster = 2" "letterCount CHR ''F'' mixedRoster = 0"
  "letterCount CHR ''E'' validRoster = 1" "letterCount CHR ''I'' validRoster = 1"
  "letterCount CHR ''S'' validRoster = 1" "letterCount CHR ''N'' validRoster = 1"
  by (simp_all add: letterCount_def typeCodes_examples toUpperCase_examples includesChar_def)

text \<open>
  Claim C6, as stated, at a roster of two type codes, \<open>ENTJ\<close> and \<open>XSTJ\<close>: S and N occur
  once each, so the ratio of S over S+N is 50, and T occurs in both codes, so T over T+F
  is 100; the analyzer divides by the count of E plus the count of I, which is 1, and
  reports 100 for S and 200 for T.
\<close>

theorem axis_ratio_counterexample:
  "axis_S (axisRatios (analyzeMBTIDistribution mixedRoster)) = 100 \<and>
   ownAxisRatio (letterCount CHR ''S'' mixedRoster) (letterCount CHR ''N'' mixedRoster) = 50 \<and>
   axis_T (axisRatios (analyzeMBTIDistribution mixedRoster)) = 200 \<and>
   ownAxisRatio (letterCount CHR ''T'' mixedRoster) (letterCount CHR ''F'' mixedRoster) = 100"
  by (simp add: axisRatios_letterCount letterCount_examples ratioOf_def ownAxisRatio_def)


lemma letterCount_pair:
  assumes "\<forall>m \<in> set (typeCodes ts). includesChar (toUpperCase m) a \<noteq> includesChar (toUpperCase m) b"
  shows "letterCount a ts + letterCount b ts = length (typeCodes ts)"
  unfolding letterCount_def using assms by (rule pair_counts)

lemma ownAxis_of_valid:
  assumes "\<forall>m \<in> set (typeCodes ts). oneLetterPerAxis m"
  shows "letterCount CHR ''S'' ts + letterCount CHR ''N'' ts = letterCount CHR ''E'' ts + letterCount CHR ''I'' ts"
    and "letterCount CHR ''T'' ts + letterCount CHR ''F'' ts = letterCount CHR ''E'' ts + letterCount CHR ''I'' ts"
    and "letterCount CHR ''J'' ts + letterCount CHR ''P'' ts = letterCount CHR ''E'' ts + letterCount CHR ''I'' ts"
proof -
  have ei: "letterCount CHR ''E'' ts + letterCount CHR ''I'' ts = length (typeCodes ts)"
    by (rule letterCount_pair) (use assms in \<open>simp add: oneLetterPerAxis_def Let_def\<close>)
  have sn: "letterCount CHR ''S'' ts + letterCount CHR ''N'' ts = length (typeCodes ts)"
    by (rule letterCount_pair) (use assms in \<open>simp add: oneLetterPerAxis_def Let_def\<close>)
  have tf: "letterCount CHR ''T'' ts + letterCount CHR ''F'' ts = length (typeCodes ts)"
    by (rule letterCount_pair) (use assms in \<open>simp add: oneLetterPerAxis_def Let_def\<close>)
  have jp: "letterCount CHR ''J'' ts + letterCount CHR ''P'' ts = length (typeCodes ts)"
    by (rule letterCount_pair) (use assms in \<open>simp add: oneLetterPerAxis_def Let_def\<close>)
  show "letterCount CHR ''S'' ts + letterCount CHR ''N'' ts = letterCount CHR ''E'' ts + letterCount CHR ''I'' ts"
    and "letterCount CHR ''T'' ts + letterCount CHR ''F'' ts = letterCount CHR ''E'' ts + letterCount CHR ''I'' ts"
    and "letterCount CHR ''J'' ts + letterCount CHR ''P'' ts = letterCount CHR ''E'' ts + letterCount CHR ''I'' ts"
    using ei sn tf jp by simp_all
qed

lemma ratioOf_ownAxis': "ratioOf y (x + y) = ownAxisRatio y x"
  by (simp add: ratioOf_def ownAxisRatio_def add.commute)

text \<open>
  Claim C6, amended. Each axis ratio is the percentage of that letter's occurrence count
  over the sum of the occurrence counts of E and I, with 0 when that sum is zero. For E and
  I this is the ratio over the own axis; for the other six letters it is the ratio over the
  own axis whenever every type code has exactly one letter of each axis.
\<close>

theorem axis_ratios_over_E_plus_I:
  "axisRatios (analyzeMBTIDistribution ts) =
     \<lparr>axis_E = ratioOf (letterCount CHR ''E'' ts) (letterCount CHR ''E'' ts + letterCount CHR ''I'' ts),
      axis_I = ratioOf (letterCount CHR ''I'' ts) (letterCount CHR ''E'' ts + letterCount CHR ''I'' ts),
      axis_S = ratioOf (letterCount CHR ''S'' ts) (letterCount CHR ''E'' ts + letterCount CHR ''I'' ts),
      axis_N = ratioOf (letterCount CHR ''N'' ts) (letterCount CHR ''E'' ts + letterCount CHR ''I'' ts),
      axis_T = ratioOf (letterCount CHR ''T'' ts) (letterCount CHR ''E'' ts + letterCount CHR ''I'' ts),
      axis_F = ratioOf (letterCount CHR ''F'' ts) (letterCount CHR ''E'' ts + letterCount CHR ''I'' ts),
      axis_J = ratioOf (letterCount CHR ''J'' ts) (letterCount CHR ''E'' ts + letterCount CHR ''I'' ts),
      axis_P = ratioOf (letterCount CHR ''P'' ts) (letterCount CHR ''E'' ts + letterCount CHR ''I'' ts)\<rparr> \<and>
   axis_E (axisRatios (analyzeMBTIDistribution ts)) =
     ownAxisRatio (letterCount CHR ''E'' ts) (letterCount CHR ''I'' ts) \<and>
   axis_I (axisRatios (analyzeMBTIDistribution ts)) =
     ownAxisRatio (letterCount CHR ''I'' ts) (letterCount CHR ''E'' ts) \<and>
   ((\<forall>m \<in> set (typeCodes ts). oneLetterPerAxis m) \<longrightarrow>
      axis_S (axisRatios (analyzeMBTIDistribution ts)) =
        ownAxisRatio (letterCount CHR ''S'' ts) (letterCount CHR ''N'' ts) \<and>
      axis_N (axisRatios (analyzeMBTIDistribution ts)) =
        ownAxisRatio (letterCount CHR ''N'' ts) (letterCount CHR ''S'' ts) \<and>
      axis_T (axisRatios (analyzeMBTIDistribution ts)) =
        ownAxisRatio (letterCount CHR ''T'' ts) (letterCount CHR ''F'' ts) \<and>
      axis_F (axisRatios (analyzeMBTIDistribution ts)) =
        ownAxisRatio (letterCount CHR ''F'' ts) (letterCount CHR ''T'' ts) \<and>
      axis_J (axisRatios (analyzeMBTIDistribution ts)) =
        ownAxisRatio (letterCount CHR ''J'' ts) (letterCount CHR ''P'' ts) \<and>
      axis_P (axisRatios (analyzeMBTIDistribution ts)) =
        ownAxisRatio (letterCount CHR ''P'' ts) (letterCount CHR ''J'' ts))"
proof (intro conjI impI)
  show "axisRatios (analyzeMBTIDistribution ts) =
     \<lparr>axis_E = ratioOf (letterCount CHR ''E'' ts) (letterCount CHR ''E'' ts + letterCount CHR ''I'' ts),
      axis_I = ratioOf (letterCount CHR ''I'' ts) (letterCount CHR ''E'' ts + letterCount CHR ''I'' ts),
      axis_S = ratioOf (letterCount CHR ''S'' ts) (letterCount CHR ''E'' ts + letterCount CHR ''I'' ts),
      axis_N = ratioOf (letterCount CHR ''N'' ts) (letterCount CHR ''E'' ts + letterCount CHR ''I'' ts),
      axis_T = ratioOf (letterCount CHR ''T'' ts) (letterCount CHR ''E'' ts + letterCount CHR ''I'' ts),
      axis_F = ratioOf (letterCount CHR ''F'' ts) (letterCount CHR ''E'' ts + letterCount CHR ''I'' ts),
      axis_J = ratioOf (letterCount CHR ''J'' ts) (letterCount CHR ''E'' ts + letterCount CHR ''I'' ts),
      axis_P = ratioOf (letterCount CHR ''P'' ts) (letterCount CHR ''E'' ts + letterCount CHR ''I'' ts)\<rparr>"
    by (rule axisRatios_letterCount)
  show "axis_E (axisRatios (analyzeMBTIDistribution ts)) =
     ownAxisRatio (letterCount CHR ''E'' ts) (letterCount CHR ''I'' ts)"
    by (simp add: axisRatios_letterCount ratioOf_ownAxis)
  show "axis_I (axisRatios (analyzeMBTIDistribution ts)) =
     ownAxisRatio (letterCount CHR ''I'' ts) (letterCount CHR ''E'' ts)"
    by (simp add: axisRatios_letterCount ratioOf_ownAxis')
next
  assume valid: "\<forall>m \<in> set (typeCodes ts). oneLetterPerAxis m"
  note eq = ownAxis_of_valid[OF valid, symmetric]
  show "axis_S (axisRatios (analyzeMBTIDistribution ts)) =
        ownAxisRatio (letterCount CHR ''S'' ts) (letterCount CHR ''N'' ts)"
    by (simp add: axisRatios_letterCount eq(1) ratioOf_ownAxis)
  show "axis_N (axisRatios (analyzeMBTIDistribution ts)) =
        ownAxisRatio (letterCount CHR ''N'' ts) (letterCount CHR ''S'' ts)"
    by (simp add: axisRatios_letterCount eq(1) ratioOf_ownAxis')
  show "axis_T (axisRatios (analyzeMBTIDistribution ts)) =
        ownAxisRatio (letterCount CHR ''T'' ts) (letterCount CHR ''F'' ts)"
    by (simp add: axisRatios_letterCount eq(2) ratioOf_ownAxis)
  show "axis_F (axisRatios (analyzeMBTIDistribution ts)) =
        ownAxisRatio (letterCount CHR ''F'' ts) (letterCount CHR ''T'' ts)"
    by (simp add: axisRatios_letterCount eq(2) ratioOf_ownAxis')
  show "axis_J (axisRatios (analyzeMBTIDistribution ts)) =
        ownAxisRatio (letterCount CHR ''J'' ts) (letterCount CHR ''P'' ts)"
    by (simp add: axisRatios_letterCount eq(3) ratioOf_ownAxis)
  show "axis_P (axisRatios (analyzeMBTIDistribution ts)) =
        ownAxisRatio (letterCount CHR ''P'' ts) (letterCount CHR ''J'' ts)"
    by (simp add: axisRatios_letterCount eq(3) ratioOf_ownAxis')
qed

theorem axis_ratios_over_E_plus_I_witness:
  "list_all oneLetterPerAxis (typeCodes validRoster) \<and>
   letterCount CHR ''S'' validRoster = 1 \<and> letterCount CHR ''N'' validRoster = 1 \<and>
   axis_S (axisRatios (analyzeMBTIDistribution validRoster)) =
     ownAxisRatio (letterCount CHR ''S'' validRoster) (letterCount CHR ''N'' validRoster) \<and>
   axis_S (axisRatios (analyzeMBTIDistribution validRoster)) = 50"
proof -
  have v: "list_all oneLetterPerAxis (typeCodes validRoster)"
    by (simp add: typeCodes_examples oneLetterPerAxis_def toUpperCase_examples includesChar_def)
  then have "\<forall>m \<in> set (typeCodes validRoster). oneLetterPerAxis m"
    by (simp add: list_all_iff)
  with axis_ratios_over_E_plus_I[of validRoster]
  have "axis_S (axisRatios (analyzeMBTIDistribution validRoster)) =
     ownAxisRatio (letterCount CHR ''S'' validRoster) (letterCount CHR ''N'' validRoster)"
    by blast
  with v show ?thesis
    by (simp add: letterCount_examples ownAxisRatio_def)
qed


subsection \<open>Expertise coverage\<close>

lemma bumpCount_countIn:
  "countIn (bumpCount k m) t = countIn m t + (if t = k then 1 else 0)"
  by (induction k m rule: bumpCount.induct) (auto simp: countIn_def)

lemma foldl_bumpCount:
  "countIn (foldl (\<lambda>m l. bumpCount l m) m ls) t = countIn m t + count_list ls t"
  by (induction ls arbitrary: m) (auto simp: bumpCount_countIn)

lemma setCount_countIn:
  "countIn (setCount k v m) t = (if t = k then v else countIn m t)"
  by (induction k v m rule: setCount.induct) (auto simp: countIn_def)

lemma withDefaults_countIn: "countIn (withDefaults keys m) t = countIn m t"
  unfolding withDefaults_def
  by (induction keys arbitrary: m) (auto simp: setCount_countIn)

lemma tallyExpertise_grades:
  "tally_grades (tallyExpertise now st teacher) =
   foldl (\<lambda>m l. bumpCount l m) (tally_grades st)
     (map gradeToLabel (case studentGrades teacher of None \<Rightarrow> [] | Some gs \<Rightarrow> gs))"
  by (simp add: tallyExpertise_def Let_def foldl_map)

lemma foldl_tallyExpertise_grades:
  "tally_grades (foldl (tallyExpertise now) st ts) =
   foldl (\<lambda>m l. bumpCount l m) (tally_grades st) (gradeLabels ts)"
proof (induction ts arbitrary: st)
  case Nil
  then show ?case by (simp add: gradeLabels_def)
next
  case (Cons t ts)
  have "gradeLabels (t # ts) =
        map gradeToLabel (case studentGrades t of None \<Rightarrow> [] | Some gs \<Rightarrow> gs) @ gradeLabels ts"
    by (simp add: gradeLabels_def)
  with Cons.IH[of "tallyExpertise now st t"] show ?case
    by (simp add: tallyExpertise_grades)
qed

lemma countIn_Nil: "countIn [] t = 0"
  by (simp add: countIn_def)

lemma grades_countIn:
  "countIn (grades (analyzeExpertiseCoverage now ts)) g = count_list (gradeLabels ts) g"
  by (simp add: analyzeExpertiseCoverage_def Let_def withDefaults_countIn
      foldl_tallyExpertise_grades foldl_bumpCount countIn_Nil)

lemma subjects_zero:
  "subjects (analyzeExpertiseCoverage now ts) = map (\<lambda>s. (s, 0)) SUBJECTS"
  by (simp add: analyzeExpertiseCoverage_def Let_def withDefaults_def SUBJECTS_def countIn_def)

lemma subjects_countIn_zero: "countIn (subjects (analyzeExpertiseCoverage now ts)) s = 0"
  by (simp add: analyzeExpertiseCoverage_def Let_def withDefaults_countIn countIn_Nil)

lemma length_SUBJECTS: "length SUBJECTS = 5" by (simp add: SUBJECTS_def)
lemma length_GRADES: "length GRADES = 6" by (simp add: GRADES_def)

lemma weakSubjects_rule:
  "weakSubjects (analyzeExpertiseCoverage now ts) =
   filter (\<lambda>s. isWeak (countIn (subjects (analyzeExpertiseCoverage now ts)) s) (length ts)
                  (length SUBJECTS)) SUBJECTS"
proof -
  have "weakSubjects (analyzeExpertiseCoverage now ts) =
        filter (\<lambda>s. real (countIn (withDefaults SUBJECTS []) s) <
                      (if length ts > 0 then real (length ts) / real (length SUBJECTS) else 0) * (1 / 2))
          SUBJECTS"
    by (simp add: analyzeExpertiseCoverage_def Let_def)
  also have "(if length ts > 0 then real (length ts) / real (length SUBJECTS) else 0) =
             real (length ts) / real (length SUBJECTS)"
    by simp
  finally show ?thesis
    by (simp add: isWeak_def analyzeExpertiseCoverage_def Let_def)
qed

lemma weakSubjects_all:
  "weakSubjects (analyzeExpertiseCoverage now ts) = (if ts = [] then [] else SUBJECTS)"
  unfolding weakSubjects_rule
  by (simp add: subjects_countIn_zero isWeak_def length_SUBJECTS)

lemma weakGrades_rule:
  "weakGrades (analyzeExpertiseCoverage now ts) =
   filter (\<lambda>g. isWeak (count_list (gradeLabels ts) g) (length ts) (length GRADES)) GRADES"
proof -
  have "weakGrades (analyzeExpertiseCoverage now ts) =
        filter (\<lambda>g. real (countIn (grades (analyzeExpertiseCoverage now ts)) g) <
                      (if length ts > 0 then real (length ts) / real (length GRADES) else 0) * (1 / 2))
          GRADES"
    by (simp add: analyzeExpertiseCoverage_def Let_def)
  also have "(if length ts > 0 then real (length ts) / real (length GRADES) else 0) =
             real (length ts) / real (length GRADES)"
    by simp
  finally show ?thesis
    by (simp add: isWeak_def grades_countIn)
qed


lemma gradeToLabel_GRADES: "map gradeToLabel [1, 2, 3, 4, 5, 6] = GRADES"
  by (simp add: gradeToLabel_def GRADES_def numberToString_def)

text \<open>
  Claim C2, as stated, at a roster of two teachers who both teach mathematics: the subject
  name occurs twice across the teachers, which is not below 50% of the even share
  \<open>2 / 5\<close>; the analyzer's tally for mathematics is 0 and it reports the subject as weak.
\<close>

theorem subject_tally_counterexample:
  "mathematics \<in> set SUBJECTS \<and>
   subjectOccurrences subjectRoster mathematics = 2 \<and>
   countIn (subjects (analyzeExpertiseCoverage 0 subjectRoster)) mathematics = 0 \<and>
   \<not> isWeak (subjectOccurrences subjectRoster mathematics) (length subjectRoster) (length SUBJECTS) \<and>
   mathematics \<in> set (weakSubjects (analyzeExpertiseCoverage 0 subjectRoster))"
proof -
  have m: "mathematics \<in> set SUBJECTS"
    by (simp add: mathematics_def SUBJECTS_def)
  have o: "subjectOccurrences subjectRoster mathematics = 2"
    by (simp add: subjectOccurrences_def subjectRoster_def mathTeacher_def)
  have w: "weakSubjects (analyzeExpertiseCoverage 0 subjectRoster) = SUBJECTS"
    by (simp add: weakSubjects_all subjectRoster_def)
  have n: "\<not> isWeak 2 (length subjectRoster) (length SUBJECTS)"
    by (simp add: isWeak_def subjectRoster_def length_SUBJECTS)
  from m o w n show ?thesis by (simp add: subjects_countIn_zero)
qed

text \<open>
  Claim C2, amended. The analyzer reads no subject data: for every roster the tally of each
  of the five fixed subjects is 0, and a subject is reported weak exactly when that tally is
  below 50% of \<open>teacherCount / 5\<close>, so all five subjects are weak for every roster that
  is not empty and none for the empty roster. The tally of a grade label is the number of its
  occurrences among the labels of the teachers' student-grade lists, and each of the six
  fixed grade labels is reported weak exactly when its tally is below 50% of
  \<open>teacherCount / 6\<close>.
\<close>

theorem expertise_coverage_tallies:
  "subjects (analyzeExpertiseCoverage now ts) = map (\<lambda>s. (s, 0)) SUBJECTS \<and>
   weakSubjects (analyzeExpertiseCoverage now ts) =
     filter (\<lambda>s. isWeak (countIn (subjects (analyzeExpertiseCoverage now ts)) s) (length ts)
                    (length SUBJECTS)) SUBJECTS \<and>
   weakSubjects (analyzeExpertiseCoverage now ts) = (if ts = [] then [] else SUBJECTS) \<and>
   (\<forall>g. countIn (grades (analyzeExpertiseCoverage now ts)) g = count_list (gradeLabels ts) g) \<and>
   weakGrades (analyzeExpertiseCoverage now ts) =
     filter (\<lambda>g. isWeak (countIn (grades (analyzeExpertiseCoverage now ts)) g) (length ts)
                    (length GRADES)) GRADES \<and>
   length SUBJECTS = 5 \<and> length GRADES = 6"
  using subjects_zero[of now ts] weakSubjects_rule[of now ts] weakSubjects_all[of now ts]
    weakGrades_rule[of now ts] length_SUBJECTS length_GRADES
  by (simp add: grades_countIn)


subsection \<open>The clock\<close>

lemma analyzeExpertiseCoverage_clock:
  "analyzeExpertiseCoverage now' ts =
   (analyzeExpertiseCoverage now ts)
     \<lparr>experienceLevels := experienceLevels (analyzeExpertiseCoverage now' ts)\<rparr>"
  by (simp add: analyzeExpertiseCoverage_def Let_def foldl_tallyExpertise_grades)

lemma calculateDiversityScore_experience:
  "calculateDiversityScore (c\<lparr>expertiseCoverage := (expertiseCoverage c)\<lparr>experienceLevels := x\<rparr>\<rparr>) =
   calculateDiversityScore c"
  by (simp only: calculateDiversityScore_def Let_def) simp

lemma getTeamRecommendations_experience:
  "getTeamRecommendations (c\<lparr>expertiseCoverage := (expertiseCoverage c)\<lparr>experienceLevels := x\<rparr>\<rparr>) d =
   getTeamRecommendations c d"
  by (simp only: getTeamRecommendations_def Let_def) simp

lemma analyzeTeamComposition_clock:
  "analyzeTeamComposition now' returnedAt' team roster =
   (analyzeTeamComposition now returnedAt team roster)
     \<lparr>composition :=
        (composition (analyzeTeamComposition now returnedAt team roster))
          \<lparr>expertiseCoverage :=
             (expertiseCoverage (composition (analyzeTeamComposition now returnedAt team roster)))
               \<lparr>experienceLevels := experienceLevels (analyzeExpertiseCoverage now' roster)\<rparr>\<rparr>,
      analyzedAt := returnedAt'\<rparr>"
proof -
  let ?c = "\<lambda>n. \<lparr>teamId = team, teacherCount = length roster,
               mbtiDistribution = analyzeMBTIDistribution roster,
               learningStyleDistribution = analyzeLearningStyleDistribution roster,
               sajuElementsDistribution = analyzeSajuElementsDistribution roster,
               expertiseCoverage = analyzeExpertiseCoverage n roster,
               roleDistribution = analyzeRoleDistribution roster\<rparr>"
  have c: "?c now' = (?c now)\<lparr>expertiseCoverage :=
              (expertiseCoverage (?c now))
                \<lparr>experienceLevels := experienceLevels (analyzeExpertiseCoverage now' roster)\<rparr>\<rparr>"
    using analyzeExpertiseCoverage_clock[of now' roster now] by simp
  have d: "calculateDiversityScore (?c now') = calculateDiversityScore (?c now)"
    by (subst c) (rule calculateDiversityScore_experience)
  have r: "getTeamRecommendations (?c now') d = getTeamRecommendations (?c now) d" for d
    by (subst c) (rule getTeamRecommendations_experience)
  show ?thesis
    unfolding analyzeTeamComposition_def Let_def d r
    using c by simp
qed




end
